theory Spec2Isabelle
  imports Main "HOL-Library.AList"
begin

section \<open>Values, dictionaries and exceptions\<close>

text \<open>
  The engine is Python. Its scratchpad, its step definitions and the tool replies are
  JSON-shaped values (\<open>Dict[str, Any]\<close>); a \<open>dict\<close> is an association list in
  insertion order, read with \<open>map_of\<close>, written with \<open>AList.update\<close> and
  deleted from with \<open>AList.delete\<close>. Floating point numbers do not occur in what is
  verified here and are left out of the value type.
\<close>

datatype json =
    JNull
  | JBool bool
  | JInt int
  | JStr string
  | JArr "json list"
  | JObj "(string \<times> json) list"

type_synonym dict = "(string \<times> json) list"

text \<open>Python truthiness (\<open>if x:\<close>) of a JSON-shaped value and of an \<open>Optional[str]\<close>.\<close>

fun truthy :: "json \<Rightarrow> bool" where
  "truthy JNull = False"
| "truthy (JBool b) = b"
| "truthy (JInt i) = (i \<noteq> 0)"
| "truthy (JStr s) = (s \<noteq> [])"
| "truthy (JArr xs) = (xs \<noteq> [])"
| "truthy (JObj kvs) = (kvs \<noteq> [])"

fun str_truthy :: "string option \<Rightarrow> bool" where
  "str_truthy None = False"
| "str_truthy (Some s) = (s \<noteq> [])"

text \<open>The string of an \<open>Optional[str]\<close> that passed \<open>if x:\<close>, and \<open>None\<close> when it did not.\<close>

fun when_truthy :: "string option \<Rightarrow> string option" where
  "when_truthy None = None"
| "when_truthy (Some s) = (if s = [] then None else Some s)"

text \<open>\<open>key in d\<close> for a dict.\<close>

definition has_key :: "dict \<Rightarrow> string \<Rightarrow> bool" where
  "has_key d k = (map_of d k \<noteq> None)"

text \<open>An optional string stored as a value: \<open>None\<close> is JSON null.\<close>

fun json_of_opt :: "string option \<Rightarrow> json" where
  "json_of_opt None = JNull"
| "json_of_opt (Some s) = JStr s"

text \<open>\<open>f"{x}"\<close> of an \<open>Optional[str]\<close>.\<close>

fun fmt_opt :: "string option \<Rightarrow> string" where
  "fmt_opt None = ''None''"
| "fmt_opt (Some s) = s"

text \<open>
  A raised exception: \<open>type(e).__name__\<close> and \<open>str(e)\<close>. Only subclasses of
  \<open>Exception\<close> are modelled, the ones an \<open>except Exception\<close> clause catches.
\<close>

datatype exn = Exn (exception_type: string) (exception_text: string)

section \<open>Task states\<close>

text \<open>
  \<open>a2a.types.TaskState\<close> is a string-valued enumeration; the engine stores and compares
  the \<open>.value\<close> strings.
\<close>

definition TaskState_working :: string where "TaskState_working = ''working''"
definition TaskState_input_required :: string where "TaskState_input_required = ''input-required''"
definition TaskState_completed :: string where "TaskState_completed = ''completed''"
definition TaskState_failed :: string where "TaskState_failed = ''failed''"
definition TaskState_canceled :: string where "TaskState_canceled = ''canceled''"

section \<open>Step definitions and the run state\<close>

text \<open>
  A step definition is the dict loaded from the catalogue. Each field below holds what the
  source reads with \<open>.get\<close>, the default of the \<open>.get\<close> standing for an absent key:
  an absent \<open>orchestration_rules\<close> or \<open>expected_data_key\<close> is the empty list, an absent
  \<open>error_mapping\<close> or \<open>success_mapping\<close> is \<open>JObj []\<close>, an absent \<open>inputs\<close> or
  \<open>output_mapping\<close> is \<open>JNull\<close>. In a rule, \<open>None\<close> says that the key is not in the
  rule's dict.
\<close>

record orchestration_rule =
  condition :: "string option"
  go_to_step :: "string option"

record user_interaction =
  user_message :: "string option"
  expected_data_key :: "string list"
  orchestration_rules :: "orchestration_rule list"

record system_action_details =
  tool_name :: "string option"
  inputs :: json
  error_mapping :: json
  success_mapping :: json
  output_mapping :: json

record step =
  step_id :: string
  next_step_id :: "string option"
  step_type :: string
  failure_message :: "string option"
  user_interaction :: user_interaction
  system_action_details :: system_action_details

text \<open>\<open>WorkflowState\<close> (wokflow\_state.py) with the fields of \<open>CubeAssistBaseState\<close>.\<close>

record WorkflowState =
  input :: "string option"
  input_data :: dict
  token :: "string option"
  event_log :: "string list"
  context_id :: "string option"
  is_new_conversation :: bool
  status :: string
  workflow_id :: "string option"
  workflow_run_id :: "string option"
  workflow_name :: "string option"
  worflow_exit_keywords :: "string list option"
  current_step_run_id :: "string option"
  go_to_step_id :: "string option"
  workflow_state :: dict
  task_state :: string
  wf_output :: json
  step_ids :: "string list"
  next_step_ids :: "string list"
  start_step_id :: "string option"
  steps :: "step list"
  run_id :: "string option"
  user_id :: "string option"
  user_roles :: "string list"

section \<open>Graph construction: the successor function (workflow\_executor.py, build\_graph)\<close>

text \<open>LangGraph's terminal node name.\<close>

definition END :: string where "END = ''__end__''"

text \<open>
  \<open>step_ids_used_for_edges\<close>: \<open>step_ids[step_ids.index(start_step_id):]\<close> when the start
  step is in the list, all step ids otherwise.
\<close>

definition step_ids_used_for_edges :: "string list \<Rightarrow> string option \<Rightarrow> string list" where
  "step_ids_used_for_edges ids start =
     (case start of
        None \<Rightarrow> ids
      | Some s \<Rightarrow> if s \<in> set ids then dropWhile (\<lambda>x. x \<noteq> s) ids else ids)"

text \<open>
  \<open>step_to_next\<close>: the dict filled by the loop over \<open>steps\<close> (a later step with the same
  id overwrites an earlier one), and \<open>step_to_next.get(step_id)\<close>.
\<close>

definition step_to_next :: "step list \<Rightarrow> (string \<rightharpoonup> string option)" where
  "step_to_next sts = fold (\<lambda>st m. m(step_id st \<mapsto> next_step_id st)) sts Map.empty"

definition step_to_next_get :: "step list \<Rightarrow> string \<Rightarrow> string option" where
  "step_to_next_get sts sid = (case step_to_next sts sid of None \<Rightarrow> None | Some n \<Rightarrow> n)"

text \<open>
  The closure \<open>should_continue\<close>, with its captured \<open>step_ids_used_for_edges\<close> and
  \<open>next_step_id\<close> as arguments. It returns the chosen node and the state object it was
  given, on which it may have cleared \<open>go_to_step_id\<close>.
\<close>

definition should_continue ::
  "string list \<Rightarrow> string option \<Rightarrow> WorkflowState \<Rightarrow> string \<times> WorkflowState" where
  "should_continue edge_ids next_step state =
     (case when_truthy (go_to_step_id state) of
        Some target_step_id \<Rightarrow> (target_step_id, state\<lparr>go_to_step_id := None\<rparr>)
      | None \<Rightarrow>
          let status_value = task_state state in
          if status_value = TaskState_input_required then (END, state)
          else if status_value = TaskState_failed \<or> status_value = TaskState_canceled
            then (END, state)
          else (case when_truthy next_step of
                  Some n \<Rightarrow> if n \<in> set edge_ids then (n, state) else (END, state)
                | None \<Rightarrow> (END, state)))"

text \<open>
  The conditional edges that \<open>build_graph\<close> adds: none unless \<open>start_step_id\<close> is
  truthy, else one per step id of \<open>step_ids_used_for_edges\<close>, each with its own closure.
  (\<open>build_graph\<close> returns before this when \<open>step_ids\<close> or \<open>steps\<close> is empty.)
\<close>

definition conditional_edges ::
  "WorkflowState \<Rightarrow> (string \<times> (WorkflowState \<Rightarrow> string \<times> WorkflowState)) list" where
  "conditional_edges w =
     (if step_ids w = [] \<or> steps w = [] then []
      else if str_truthy (start_step_id w) then
        map (\<lambda>sid. (sid, should_continue (step_ids_used_for_edges (step_ids w) (start_step_id w))
                                         (step_to_next_get (steps w) sid)))
            (step_ids_used_for_edges (step_ids w) (start_step_id w))
      else [])"

section \<open>Collaborators outside the repository's sources\<close>

text \<open>
  The handlers call the template library (Jinja2), Python's \<open>eval\<close>, \<open>str\<close> and
  \<open>json\<close>, the tool server (an MCP session) and the repository's \<open>Utilities\<close> JSON-path
  helper, whose source is not part of the verified files. They are parameters of the model.
  A call that can raise returns \<open>exn + 'a\<close> with \<open>Inl\<close> the exception.

  \<^item> \<open>find_undeclared_variables\<close>: \<open>Environment().parse(t)\<close> followed by
    \<open>meta.find_undeclared_variables\<close>; the set of names as a list.
  \<^item> \<open>render\<close>: \<open>Environment().from_string(t).render(ctx)\<close>.
  \<^item> \<open>py_eval\<close>: the truth value of \<open>eval(text)\<close>.
  \<^item> \<open>py_lower\<close>: \<open>str.lower()\<close>, Python's lower-casing of a text, with all of its
    Unicode case mappings.
  \<^item> \<open>py_str\<close>: \<open>str(x)\<close> of a value that is not a string.
  \<^item> \<open>py_repr_rule\<close>: the text of a rule dict in an f-string.
  \<^item> \<open>json_loads\<close>, \<open>json_dumps\<close>: \<open>json.loads\<close> of a text, \<open>json.dumps\<close> of a string
    (quotes included).
  \<^item> \<open>call_tool\<close>: the whole \<open>async with asyncio.timeout(45)\<close> block of the system-action
    handler: it times out, or raises, or yields \<open>result.content[0].text\<close>.
  \<^item> \<open>resolve_jsonpath_in_params\<close>, \<open>extract_json_path_value\<close>: the JSON-path helper.
    By the specification \<open>extract\<close> yields null for a missing path and \<open>resolve\<close>
    replaces the reference leaves of a parameter tree; both are total and do not change the
    document they read.
\<close>

datatype tool_outcome =
    ToolTimeout
  | ToolRaised exn
  | ToolReplied string

record externals =
  find_undeclared_variables :: "string \<Rightarrow> exn + string list"
  render :: "string option \<Rightarrow> dict \<Rightarrow> exn + string"
  py_eval :: "string \<Rightarrow> exn + bool"
  py_lower :: "string \<Rightarrow> string"
  py_str :: "json \<Rightarrow> string"
  py_repr_rule :: "orchestration_rule \<Rightarrow> string"
  json_loads :: "string \<Rightarrow> exn + json"
  json_dumps :: "string \<Rightarrow> string"
  call_tool :: "string option \<Rightarrow> json \<Rightarrow> tool_outcome"
  resolve_jsonpath_in_params :: "json \<Rightarrow> json \<Rightarrow> json"
  extract_json_path_value :: "json \<Rightarrow> json \<Rightarrow> json"

text \<open>\<open>str(x)\<close>: a string is itself.\<close>

definition str_of :: "externals \<Rightarrow> json \<Rightarrow> string" where
  "str_of ext v = (case v of JStr s \<Rightarrow> s | _ \<Rightarrow> py_str ext v)"

text \<open>The result of a handler: the returned state, or the exception with the state as mutated so far.\<close>

type_synonym handler_result = "(exn \<times> WorkflowState) + WorkflowState"

section \<open>The USER\_INPUT handler (workflow\_executor.py, user\_input\_with\_step)\<close>

text \<open>
  The exit test: \<open>workflow_input_text and workflow_input_text.lower() in
  [keyword.lower() for keyword in workflow_exit_keywords]\<close>. With a text that is not empty
  the comprehension runs, and raises \<open>TypeError\<close> over \<open>None\<close>.
\<close>

definition exit_keyword_received ::
  "externals \<Rightarrow> string option \<Rightarrow> string list option \<Rightarrow> exn + bool" where
  "exit_keyword_received ext workflow_input_text workflow_exit_keywords =
     (case when_truthy workflow_input_text of
        None \<Rightarrow> Inr False
      | Some t \<Rightarrow>
          (case workflow_exit_keywords of
             None \<Rightarrow> Inl (Exn ''TypeError'' '''NoneType' object is not iterable'')
           | Some kws \<Rightarrow> Inr (py_lower ext t \<in> set (map (py_lower ext) kws))))"

text \<open>
  Reply ingestion. With a non-empty \<open>input_data\<close> and expected keys, the expected keys that
  \<open>input_data\<close> has are copied; otherwise a non-empty text goes to the first expected key.
  The second component says that the handler returns here (the user declined
  \<open>confirm_action\<close>).
\<close>

definition copy_expected_keys :: "string list \<Rightarrow> dict \<Rightarrow> dict \<Rightarrow> dict" where
  "copy_expected_keys expected_data_keys workflow_input_data d =
     fold (\<lambda>key acc. case map_of workflow_input_data key of
                        Some v \<Rightarrow> AList.update key v acc
                      | None \<Rightarrow> acc)
          expected_data_keys d"

definition ingest_reply ::
  "externals \<Rightarrow> user_interaction \<Rightarrow> WorkflowState \<Rightarrow> WorkflowState \<times> bool" where
  "ingest_reply ext ui ws =
     (let expected_data_keys = expected_data_key ui in
      if input_data ws \<noteq> [] \<and> length expected_data_keys > 0 then
        (ws\<lparr>workflow_state :=
               copy_expected_keys expected_data_keys (input_data ws) (workflow_state ws)\<rparr>, False)
      else
        (case (when_truthy (input ws), expected_data_keys) of
           (Some t, k # _) \<Rightarrow>
             (let ws1 = ws\<lparr>workflow_state := AList.update k (JStr t) (workflow_state ws)\<rparr> in
              if k = ''confirm_action'' \<and> py_lower ext t \<in> set [''no'', ''n''] then
                (ws1\<lparr>task_state := TaskState_canceled,
                     wf_output := JObj [(''summary'', JStr ''Action cancelled by user'')]\<rparr>, True)
              else (ws1, False))
         | _ \<Rightarrow> (ws, False)))"

text \<open>
  The two \<open>except\<close> clauses around a rule: an exception of the rendering or of the
  evaluation becomes the inner \<open>ValueError\<close>, which the outer clause catches and wraps
  again; any other exception inside the outer \<open>try\<close> is wrapped once.
\<close>

definition invalid_rule :: "externals \<Rightarrow> orchestration_rule \<Rightarrow> exn \<Rightarrow> exn" where
  "invalid_rule ext rule e =
     Exn ''ValueError''
       (''Invalid orchestration rule data: '' @ py_repr_rule ext rule @ '', error: ''
          @ exception_text e)"

definition eval_failed :: "string \<Rightarrow> exn \<Rightarrow> exn" where
  "eval_failed condition_template eval_error =
     Exn ''ValueError''
       (''Failed to evaluate orchestration rule condition '' @ [CHR 0x27] @ condition_template
          @ [CHR 0x27] @ '': '' @ exception_text eval_error)"

text \<open>
  The loop over \<open>orchestration_rules\<close>. The context is a copy of the scratchpad, which the
  loop does not change. The loop yields the target of the matching rule, if one matched
  (the \<open>break\<close>), and the binding of the local \<open>template_variables\<close> as the loop leaves it:
  \<open>None\<close> while no rule with both keys has been processed.
\<close>

fun run_orchestration_rules ::
  "externals \<Rightarrow> dict \<Rightarrow> orchestration_rule list \<Rightarrow> string list option
     \<Rightarrow> exn + (string option \<times> string list option)" where
  "run_orchestration_rules ext context [] tv = Inr (None, tv)"
| "run_orchestration_rules ext context (rule # rest) tv =
     (case (condition rule, go_to_step rule) of
        (Some condition_template, Some target_step_id) \<Rightarrow>
          (case find_undeclared_variables ext condition_template of
             Inl e \<Rightarrow> Inl (invalid_rule ext rule e)
           | Inr template_variables \<Rightarrow>
               if filter (\<lambda>var. \<not> has_key context var) template_variables \<noteq> [] then
                 run_orchestration_rules ext context rest (Some template_variables)
               else
                 (case render ext (Some condition_template) context of
                    Inl e \<Rightarrow> Inl (invalid_rule ext rule (eval_failed condition_template e))
                  | Inr rendered_condition \<Rightarrow>
                      (case py_eval ext rendered_condition of
                         Inl e \<Rightarrow> Inl (invalid_rule ext rule (eval_failed condition_template e))
                       | Inr condition_result \<Rightarrow>
                           if condition_result then
                             Inr (Some target_step_id, Some template_variables)
                           else
                             run_orchestration_rules ext context rest
                               (Some template_variables))))
      | _ \<Rightarrow> run_orchestration_rules ext context rest tv)"

text \<open>The reset block after the loop: each name of \<open>template_variables\<close> becomes null in both dicts.\<close>

definition reset_template_variables :: "string list \<Rightarrow> dict \<Rightarrow> dict" where
  "reset_template_variables template_variables d =
     fold (\<lambda>temp_var acc. AList.update temp_var JNull acc) template_variables d"

text \<open>
  What the specification says of one rule against the scratchpad, for stating the
  properties of the loop: the rule lacks one of its two keys; it references a variable that
  the scratchpad does not have; all its variables are there and its rendered condition
  evaluates to the truth value \<open>b\<close>; all its variables are there, its condition renders,
  and the evaluation raises \<open>e\<close>.
\<close>

definition lacks_keys :: "orchestration_rule \<Rightarrow> bool" where
  "lacks_keys rule = (condition rule = None \<or> go_to_step rule = None)"

definition references_absent :: "externals \<Rightarrow> dict \<Rightarrow> orchestration_rule \<Rightarrow> bool" where
  "references_absent ext context rule =
     (case (condition rule, go_to_step rule) of
        (Some c, Some t) \<Rightarrow>
          (case find_undeclared_variables ext c of
             Inr vars \<Rightarrow> list_ex (\<lambda>v. \<not> has_key context v) vars
           | Inl e \<Rightarrow> False)
      | _ \<Rightarrow> False)"

definition evaluates_to :: "externals \<Rightarrow> dict \<Rightarrow> orchestration_rule \<Rightarrow> bool \<Rightarrow> bool" where
  "evaluates_to ext context rule b =
     (case (condition rule, go_to_step rule) of
        (Some c, Some t) \<Rightarrow>
          (case find_undeclared_variables ext c of
             Inr vars \<Rightarrow>
               list_all (has_key context) vars
               \<and> (case render ext (Some c) context of
                      Inr txt \<Rightarrow> py_eval ext txt = Inr b
                    | Inl e \<Rightarrow> False)
           | Inl e \<Rightarrow> False)
      | _ \<Rightarrow> False)"

definition evaluation_raises :: "externals \<Rightarrow> dict \<Rightarrow> orchestration_rule \<Rightarrow> exn \<Rightarrow> bool" where
  "evaluation_raises ext context rule e =
     (case (condition rule, go_to_step rule) of
        (Some c, Some t) \<Rightarrow>
          (case find_undeclared_variables ext c of
             Inr vars \<Rightarrow>
               list_all (has_key context) vars
               \<and> (case render ext (Some c) context of
                      Inr txt \<Rightarrow> py_eval ext txt = Inl e
                    | Inl e' \<Rightarrow> False)
           | Inl e' \<Rightarrow> False)
      | _ \<Rightarrow> False)"

text \<open>A rule that the loop passes over without a match: skipped, or evaluated to a falsy value.\<close>

definition passed_over :: "externals \<Rightarrow> dict \<Rightarrow> orchestration_rule \<Rightarrow> bool" where
  "passed_over ext context rule =
     (lacks_keys rule \<or> references_absent ext context rule \<or> evaluates_to ext context rule False)"

text \<open>
  Resume mode. After ingestion the rules run, if there are any; a match sets
  \<open>go_to_step_id\<close>; the reset block reads the local \<open>template_variables\<close>, which is
  unbound when no rule carried both keys.
\<close>

definition resume_turn :: "externals \<Rightarrow> user_interaction \<Rightarrow> WorkflowState \<Rightarrow> handler_result" where
  "resume_turn ext ui ws =
     (case ingest_reply ext ui ws of
        (ws1, True) \<Rightarrow> Inr ws1
      | (ws1, False) \<Rightarrow>
          if orchestration_rules ui = [] then Inr (ws1\<lparr>task_state := TaskState_completed\<rparr>)
          else
            (case run_orchestration_rules ext (workflow_state ws1) (orchestration_rules ui) None of
               Inl e \<Rightarrow> Inl (e, ws1)
             | Inr (matched, tv) \<Rightarrow>
                 (let ws2 = (case matched of
                               Some target_step_id \<Rightarrow> ws1\<lparr>go_to_step_id := Some target_step_id\<rparr>
                             | None \<Rightarrow> ws1)
                  in case tv of
                       None \<Rightarrow>
                         Inl (Exn ''UnboundLocalError''
                                (''cannot access local variable '' @ [CHR 0x27]
                                   @ ''template_variables'' @ [CHR 0x27]
                                   @ '' where it is not associated with a value''), ws2)
                     | Some template_variables \<Rightarrow>
                         Inr (ws2\<lparr>workflow_state :=
                                    reset_template_variables template_variables (workflow_state ws2),
                                  input_data :=
                                    reset_template_variables template_variables (input_data ws2),
                                  task_state := TaskState_completed\<rparr>))))"

text \<open>Prompt mode: render \<open>user_message\<close>, parse it as JSON or wrap it, and suspend.\<close>

definition prompt_turn :: "externals \<Rightarrow> user_interaction \<Rightarrow> WorkflowState \<Rightarrow> handler_result" where
  "prompt_turn ext ui ws =
     (let ws1 = ws\<lparr>go_to_step_id := None\<rparr> in
      case render ext (user_message ui) (workflow_state ws1) of
        Inl e \<Rightarrow> Inl (e, ws1)
      | Inr rendered_template \<Rightarrow>
          Inr (ws1\<lparr>wf_output := (case json_loads ext rendered_template of
                                     Inr parsed \<Rightarrow> parsed
                                   | Inl _ \<Rightarrow> JObj [(''summary'', JStr rendered_template)]),
                   task_state := TaskState_input_required\<rparr>))"

definition user_input_with_step :: "externals \<Rightarrow> step \<Rightarrow> WorkflowState \<Rightarrow> handler_result" where
  "user_input_with_step ext step_detail ws =
     (case exit_keyword_received ext (input ws) (worflow_exit_keywords ws) of
        Inl e \<Rightarrow> Inl (e, ws)
      | Inr True \<Rightarrow>
          Inr (ws\<lparr>task_state := TaskState_canceled,
                  wf_output := JObj [(''summary'',
                    JStr (''Workflow '' @ fmt_opt (workflow_id ws) @ '' (''
                            @ fmt_opt (workflow_name ws) @ '') terminated.''))]\<rparr>)
      | Inr False \<Rightarrow>
          if \<not> is_new_conversation ws \<and> Some (step_id step_detail) = start_step_id ws
             \<and> \<not> str_truthy (go_to_step_id ws)
          then resume_turn ext (user_interaction step_detail) ws
          else prompt_turn ext (user_interaction step_detail) ws)"

section \<open>The SYSTEM\_ACTION handler (workflow\_executor.py, system\_control\_with\_step)\<close>

text \<open>\<open>json.loads(tool_input) if isinstance(tool_input, str) else tool_input\<close>.\<close>

definition parse_tool_input :: "externals \<Rightarrow> json \<Rightarrow> exn + json" where
  "parse_tool_input ext tool_input =
     (case tool_input of JStr s \<Rightarrow> json_loads ext s | _ \<Rightarrow> Inr tool_input)"

text \<open>
  Parameter resolution: only for truthy \<open>tool_params\<close>, the scratchpad gets \<open>token\<close> and
  \<open>user_id\<close>, the parameters are resolved against it, and both keys are deleted again. The
  second component is the state with which the handler goes on to call the tool.
\<close>

definition resolve_tool_params :: "externals \<Rightarrow> json \<Rightarrow> WorkflowState \<Rightarrow> json \<times> WorkflowState" where
  "resolve_tool_params ext tool_params ws =
     (if truthy tool_params then
        (let d1 = AList.update ''user_id'' (json_of_opt (user_id ws))
                    (AList.update ''token'' (json_of_opt (token ws)) (workflow_state ws));
             resolved = resolve_jsonpath_in_params ext tool_params (JObj d1);
             d2 = AList.delete ''user_id'' (AList.delete ''token'' d1)
         in (resolved, ws\<lparr>workflow_state := d2\<rparr>))
      else (tool_params, ws))"

text \<open>The type name in the \<open>AttributeError\<close> that \<open>.get\<close> raises on a value that is no dict.\<close>

fun py_type_name :: "json \<Rightarrow> string" where
  "py_type_name JNull = ''NoneType''"
| "py_type_name (JBool _) = ''bool''"
| "py_type_name (JInt _) = ''int''"
| "py_type_name (JStr _) = ''str''"
| "py_type_name (JArr _) = ''list''"
| "py_type_name (JObj _) = ''dict''"

definition no_attribute :: "string \<Rightarrow> string \<Rightarrow> string" where
  "no_attribute type_name attr =
     [CHR 0x27] @ type_name @ [CHR 0x27] @ '' object has no attribute '' @ [CHR 0x27] @ attr
       @ [CHR 0x27]"

text \<open>
  The \<open>try\<close> block with its two \<open>except\<close> clauses: \<open>Inl\<close> is the \<open>summary\<close> with which
  the handler fails, \<open>Inr\<close> the decoded tool output with which it goes on.
\<close>

definition try_tool :: "externals \<Rightarrow> string option \<Rightarrow> json \<Rightarrow> json \<Rightarrow> string + json" where
  "try_tool ext name error_mapping0 tool_params =
     (case call_tool ext name tool_params of
        ToolTimeout \<Rightarrow> Inl (''Tool execution timeout: '' @ fmt_opt name)
      | ToolRaised e \<Rightarrow> Inl (exception_text e)
      | ToolReplied text \<Rightarrow>
          (case json_loads ext text of
             Inl e \<Rightarrow> Inl (exception_text e)
           | Inr tool_output \<Rightarrow>
               (case resolve_jsonpath_in_params ext error_mapping0 tool_output of
                  JObj em \<Rightarrow>
                    if map_of em ''error_status'' = Some (JStr ''error'') then
                      Inl (str_of ext
                             (case map_of em ''error_message'' of
                                Some error_message \<Rightarrow> error_message
                              | None \<Rightarrow> JStr (''Tool '' @ fmt_opt name @ '' returned error'')))
                    else Inr tool_output
                | other \<Rightarrow> Inl (no_attribute (py_type_name other) ''get''))))"

text \<open>
  \<open>output_mapping\<close>: every extracted value is stored in the scratchpad, a string after
  \<open>json.dumps(v)[1:-1]\<close>.
\<close>

definition escape_extracted :: "externals \<Rightarrow> json \<Rightarrow> json" where
  "escape_extracted ext extracted_value =
     (case extracted_value of
        JStr s \<Rightarrow>
          (let escaped_value = json_dumps ext s in
           if length escaped_value > 1 then JStr (butlast (tl escaped_value)) else JStr s)
      | _ \<Rightarrow> extracted_value)"

definition apply_output_mapping :: "externals \<Rightarrow> json \<Rightarrow> (string \<times> json) list \<Rightarrow> dict \<Rightarrow> dict" where
  "apply_output_mapping ext tool_output mapping d =
     fold (\<lambda>(key, json_path) acc.
             AList.update key
               (escape_extracted ext (extract_json_path_value ext tool_output json_path)) acc)
          mapping d"

text \<open>\<open>m and isinstance(m, dict)\<close>: the items of a non-empty dict, else nothing.\<close>

fun nonempty_dict :: "json \<Rightarrow> (string \<times> json) list option" where
  "nonempty_dict (JObj kvs) = (if kvs = [] then None else Some kvs)"
| "nonempty_dict _ = None"

text \<open>
  The handler. In \<open>workflow_state.inputs[key] = extract(...)\<close> the right-hand side is
  evaluated first and is total; reading the attribute \<open>inputs\<close>, which the dataclass
  does not declare, then raises \<open>AttributeError\<close> at the first item.
\<close>

definition system_control_with_step :: "externals \<Rightarrow> step \<Rightarrow> WorkflowState \<Rightarrow> handler_result" where
  "system_control_with_step ext step_detail ws =
     (let system_action = system_action_details step_detail;
          tool_input = inputs system_action;
          name = tool_name system_action
      in case parse_tool_input ext tool_input of
           Inl e \<Rightarrow> Inl (e, ws)
         | Inr tool_params0 \<Rightarrow>
             (case resolve_tool_params ext tool_params0 ws of
                (tool_params, ws1) \<Rightarrow>
                  (case try_tool ext name (error_mapping system_action) tool_params of
                     Inl summary \<Rightarrow>
                       Inr (ws1\<lparr>task_state := TaskState_failed,
                                wf_output := JObj [(''summary'', JStr summary)]\<rparr>)
                   | Inr tool_output \<Rightarrow>
                       (case nonempty_dict (success_mapping system_action) of
                          Some _ \<Rightarrow>
                            Inl (Exn ''AttributeError''
                                   (no_attribute ''WorkflowState'' ''inputs''), ws1)
                        | None \<Rightarrow>
                            (let ws2 = (case nonempty_dict (output_mapping system_action) of
                                          Some mapping \<Rightarrow>
                                            ws1\<lparr>workflow_state :=
                                                  apply_output_mapping ext tool_output mapping
                                                    (workflow_state ws1)\<rparr>
                                        | None \<Rightarrow> ws1)
                             in Inr (ws2\<lparr>task_state := TaskState_completed\<rparr>))))))"

text \<open>
  For stating when the scratchpad is scrubbed: what the handler does once the \<open>try\<close>
  block has ended, from the state \<open>ws1\<close> with which the tool was called and the outcome
  of the block (\<open>Inl\<close> the failure summary, \<open>Inr\<close> the tool output).
\<close>

definition after_tool_call :: "externals \<Rightarrow> step \<Rightarrow> WorkflowState \<Rightarrow> string + json \<Rightarrow> handler_result" where
  "after_tool_call ext step_detail ws1 outcome =
     (case outcome of
        Inl summary \<Rightarrow>
          Inr (ws1\<lparr>task_state := TaskState_failed,
                   wf_output := JObj [(''summary'', JStr summary)]\<rparr>)
      | Inr tool_output \<Rightarrow>
          (case nonempty_dict (success_mapping (system_action_details step_detail)) of
             Some _ \<Rightarrow>
               Inl (Exn ''AttributeError'' (no_attribute ''WorkflowState'' ''inputs''), ws1)
           | None \<Rightarrow>
               (case nonempty_dict (output_mapping (system_action_details step_detail)) of
                  Some mapping \<Rightarrow>
                    Inr (ws1\<lparr>workflow_state :=
                              apply_output_mapping ext tool_output mapping (workflow_state ws1),
                            task_state := TaskState_completed\<rparr>)
                | None \<Rightarrow> Inr (ws1\<lparr>task_state := TaskState_completed\<rparr>))))"

text \<open>The scratchpad that the journal row of a finished step holds, by the outcome of the handler.\<close>

definition journalled_state :: "handler_result \<Rightarrow> WorkflowState" where
  "journalled_state r = (case r of Inl (e, ws') \<Rightarrow> ws' | Inr rs \<Rightarrow> rs)"

section \<open>The step-run journal wrapper (workflow\_decorators.py, process\_workflow\_run)\<close>

text \<open>
  The table \<open>workflow_run\<close> as a map from the value given for its primary key
  \<open>step_run_id\<close> to the row. A column that an \<open>INSERT\<close> does not name is null. Each
  of the three statements is an \<open>INSERT ... ON CONFLICT (step_run_id) DO UPDATE SET\<close>:
  on an existing row only the columns after \<open>SET\<close> change. The JSON columns hold the
  value that \<open>json.dumps\<close> serialises. Timestamps are readings of the clock, and a failing
  database is outside the model.
\<close>

record workflow_run_row =
  row_workflow_run_id :: "string option"
  row_workflow_id :: "string option"
  row_step_id :: string
  started_at :: "nat option"
  completed_at :: "nat option"
  row_status :: string
  row_workflow_state :: json
  success_response :: "json option"
  error_response :: "json option"
  created_at :: "nat option"
  created_by :: "string option"
  updated_at :: "nat option"
  updated_by :: "string option"

type_synonym journal = "string option \<rightharpoonup> workflow_run_row"

definition initial_upsert ::
  "journal \<Rightarrow> string option \<Rightarrow> string option \<Rightarrow> string option \<Rightarrow> string \<Rightarrow> nat \<Rightarrow> json \<Rightarrow> journal" where
  "initial_upsert db run_id' step_run_id wf_id sid t snapshot =
     (case db step_run_id of
        None \<Rightarrow>
          db(step_run_id \<mapsto>
               \<lparr>row_workflow_run_id = run_id', row_workflow_id = wf_id, row_step_id = sid,
                started_at = Some t, completed_at = None, row_status = TaskState_working,
                row_workflow_state = snapshot, success_response = None, error_response = None,
                created_at = Some t, created_by = Some ''system'', updated_at = None,
                updated_by = None\<rparr>)
      | Some row \<Rightarrow>
          db(step_run_id \<mapsto>
               row\<lparr>started_at := Some t, row_status := TaskState_working,
                   row_workflow_state := snapshot, updated_at := Some t,
                   updated_by := Some ''system''\<rparr>))"

definition completion_upsert ::
  "journal \<Rightarrow> string option \<Rightarrow> string option \<Rightarrow> string option \<Rightarrow> string \<Rightarrow> nat \<Rightarrow> nat
     \<Rightarrow> string \<Rightarrow> json \<Rightarrow> json option \<Rightarrow> json option \<Rightarrow> journal" where
  "completion_upsert db run_id' step_run_id wf_id sid t_start t_end st snapshot success error =
     (case db step_run_id of
        None \<Rightarrow>
          db(step_run_id \<mapsto>
               \<lparr>row_workflow_run_id = run_id', row_workflow_id = wf_id, row_step_id = sid,
                started_at = Some t_start, completed_at = Some t_end, row_status = st,
                row_workflow_state = snapshot, success_response = success,
                error_response = error, created_at = Some t_start,
                created_by = Some ''system'', updated_at = Some t_end,
                updated_by = Some ''system''\<rparr>)
      | Some row \<Rightarrow>
          db(step_run_id \<mapsto>
               row\<lparr>completed_at := Some t_end, row_status := st, row_workflow_state := snapshot,
                   success_response := success, error_response := error,
                   updated_at := Some t_end, updated_by := Some ''system''\<rparr>))"

definition error_upsert ::
  "journal \<Rightarrow> string option \<Rightarrow> string option \<Rightarrow> string option \<Rightarrow> string \<Rightarrow> nat \<Rightarrow> nat
     \<Rightarrow> json \<Rightarrow> json \<Rightarrow> journal" where
  "error_upsert db run_id' step_run_id wf_id sid t_start t_end snapshot error =
     (case db step_run_id of
        None \<Rightarrow>
          db(step_run_id \<mapsto>
               \<lparr>row_workflow_run_id = run_id', row_workflow_id = wf_id, row_step_id = sid,
                started_at = Some t_start, completed_at = Some t_end,
                row_status = TaskState_failed, row_workflow_state = snapshot,
                success_response = None, error_response = Some error,
                created_at = Some t_start, created_by = Some ''system'',
                updated_at = Some t_end, updated_by = Some ''system''\<rparr>)
      | Some row \<Rightarrow>
          db(step_run_id \<mapsto>
               row\<lparr>completed_at := Some t_end, row_status := TaskState_failed,
                   row_workflow_state := snapshot, error_response := Some error,
                   updated_at := Some t_end, updated_by := Some ''system''\<rparr>))"

text \<open>The \<open>error_data\<close> and \<open>error_workflow_state\<close> dicts of the \<open>except\<close> clause. \<open>wrid\<close> is
  the wrapper's local \<open>workflow_run_id\<close>, read before the handler ran.\<close>

definition error_data :: "step \<Rightarrow> string option \<Rightarrow> WorkflowState \<Rightarrow> exn \<Rightarrow> json" where
  "error_data step_detail wrid ws e =
     JObj [(''error'', JStr (exception_text e)),
           (''failure_message'',
              JStr (case failure_message step_detail of
                      None \<Rightarrow> ''Step execution failed''
                    | Some m \<Rightarrow> m)),
           (''step_id'', JStr (step_id step_detail)),
           (''workflow_run_id'', json_of_opt wrid),
           (''step_run_id'', json_of_opt (current_step_run_id ws)),
           (''exception_type'', JStr (exception_type e))]"

definition error_workflow_state ::
  "step \<Rightarrow> string option \<Rightarrow> WorkflowState \<Rightarrow> exn \<Rightarrow> json" where
  "error_workflow_state step_detail wrid ws e =
     JObj [(''inputs'', JObj (workflow_state ws)),
           (''status'', JStr TaskState_failed),
           (''output'', wf_output ws),
           (''step_ids'', JArr (map JStr (step_ids ws))),
           (''next_step_ids'', JArr (map JStr (next_step_ids ws))),
           (''start_step_id'', json_of_opt (start_step_id ws)),
           (''workflow_id'', json_of_opt (workflow_id ws)),
           (''workflow_run_id'', json_of_opt (workflow_run_id ws)),
           (''current_step_run_id'', json_of_opt (current_step_run_id ws)),
           (''execution_phase'', JStr ''ERROR''),
           (''error_details'', error_data step_detail wrid ws e)]"

text \<open>The \<open>success_response\<close> dict; \<open>next_step\<close> is left out for a canceled step.\<close>

definition success_data ::
  "step \<Rightarrow> string option \<Rightarrow> WorkflowState \<Rightarrow> bool \<Rightarrow> string \<Rightarrow> json" where
  "success_data step_detail wrid rs with_next st =
     JObj ([(''success'', JBool True), (''step_completed'', JStr (step_id step_detail))]
           @ (if with_next then [(''next_step'', json_of_opt (next_step_id step_detail))] else [])
           @ [(''workflow_run_id'', json_of_opt wrid),
              (''step_run_id'', json_of_opt (current_step_run_id rs)),
              (''step_output'', wf_output rs),
              (''status'', JStr st)])"

text \<open>
  The status, the two responses and the returned state after a handler that returned.
  \<open>final_workflow_state\<close> is the scratchpad object of the state itself, so the
  \<open>execution_phase\<close> entry shows in the returned state too.
\<close>

definition completion_outcome ::
  "step \<Rightarrow> string option \<Rightarrow> WorkflowState
     \<Rightarrow> string \<times> json option \<times> json option \<times> WorkflowState" where
  "completion_outcome step_detail wrid rs =
     (if task_state rs = TaskState_failed then
        (TaskState_failed, None,
         Some (JObj [(''error'', wf_output rs), (''step_id'', JStr (step_id step_detail)),
                     (''workflow_run_id'', json_of_opt wrid),
                     (''step_run_id'', json_of_opt (current_step_run_id rs))]),
         rs\<lparr>workflow_state :=
              AList.update ''execution_phase'' (JStr ''FAILED'') (workflow_state rs)\<rparr>)
      else if task_state rs = TaskState_canceled then
        (TaskState_canceled, Some (success_data step_detail wrid rs False ''canceled''), None,
         rs\<lparr>workflow_state :=
              AList.update ''execution_phase'' (JStr ''CANCELED'') (workflow_state rs)\<rparr>)
      else if task_state rs = TaskState_working then
        (TaskState_working, Some (success_data step_detail wrid rs True ''working''), None, rs)
      else if task_state rs = TaskState_input_required then
        (TaskState_input_required, Some (success_data step_detail wrid rs True ''input-required''),
         None, rs)
      else
        (TaskState_completed, Some (success_data step_detail wrid rs True ''completed''), None, rs))"

text \<open>
  The wrapper around a handler \<open>func\<close>. \<open>uuid1\<close> and \<open>uuid2\<close> are the values of the two
  \<open>uuid.uuid4()\<close> calls, \<open>t_start\<close> and \<open>t_end\<close> the two clock readings. It yields the
  journal and either the returned state or the exception that it raises again.
\<close>

definition ensure_step_run_id :: "string \<Rightarrow> WorkflowState \<Rightarrow> WorkflowState" where
  "ensure_step_run_id uuid1 ws0 =
     (if \<not> str_truthy (current_step_run_id ws0)
      then ws0\<lparr>current_step_run_id := Some uuid1\<rparr> else ws0)"

definition process_workflow_run ::
  "(step \<Rightarrow> WorkflowState \<Rightarrow> handler_result) \<Rightarrow> string \<Rightarrow> string \<Rightarrow> nat \<Rightarrow> nat
     \<Rightarrow> step \<Rightarrow> WorkflowState \<Rightarrow> journal \<Rightarrow> journal \<times> handler_result" where
  "process_workflow_run func uuid1 uuid2 t_start t_end step_detail ws0 db =
     (let ws = ensure_step_run_id uuid1 ws0;
          db1 = initial_upsert db (workflow_run_id ws) (current_step_run_id ws) (workflow_id ws)
                  (step_id step_detail) t_start (JObj (workflow_state ws))
      in case func step_detail ws of
           Inr result_state \<Rightarrow>
             (case completion_outcome step_detail (workflow_run_id ws) result_state of
                (st, success, error, rs) \<Rightarrow>
                  (completion_upsert db1 (workflow_run_id ws) (current_step_run_id rs)
                     (workflow_id ws) (step_id step_detail) t_start t_end st
                     (JObj (workflow_state rs)) success error,
                   Inr (if task_state rs \<noteq> TaskState_input_required
                        then rs\<lparr>current_step_run_id := Some uuid2\<rparr> else rs)))
         | Inl (e, ws') \<Rightarrow>
             (error_upsert db1 (workflow_run_id ws) (current_step_run_id ws') (workflow_id ws)
                (step_id step_detail) t_start t_end
                (error_workflow_state step_detail (workflow_run_id ws) ws' e)
                (error_data step_detail (workflow_run_id ws) ws' e),
              Inl (e, ws')))"

section \<open>The workflow manager (workflow\_manager.py, process\_workflow)\<close>

text \<open>
  Modelled from the spec: the message classes \<open>AgentInputMessage\<close> and
  \<open>AgentOutputMessage\<close> (app.utils.agent\_message) are not among the source files. The
  inbound payload has \<open>workflow-id\<close>, \<open>task-id\<close>, \<open>context-id\<close>, \<open>token\<close>, \<open>input\<close>,
  \<open>input-data\<close> and the advisory \<open>is-new-conversation\<close>; the reply has \<open>output\<close>,
  \<open>task-state\<close>, \<open>status\<close>, \<open>event-log\<close>, \<open>workflow-id\<close> and \<open>workflow-name\<close>.
\<close>

record AgentInputMessage =
  msg_workflow_id :: "string option"
  msg_task_id :: "string option"
  msg_context_id :: "string option"
  msg_token :: "string option"
  msg_input :: "string option"
  msg_input_data :: "dict option"
  msg_is_new_conversation :: bool

record AgentOutputMessage =
  out_output :: json
  out_task_state :: string
  out_status :: string
  out_event_log :: "string list"
  out_workflow_id :: "string option"
  out_workflow_name :: "string option"

text \<open>
  The row of the resume probe (\<open>get_input_required_step\<close>) and the workflow returned by
  the catalogue, as the manager reads them.
\<close>

record input_required_data =
  ir_step_id :: "string option"
  ir_workflow_id :: "string option"
  ir_step_run_id :: "string option"
  ir_workflow_state :: dict

record workflow_definition =
  wf_name :: "string option"
  workflow_exit_keywords :: "string list option"
  wf_steps :: "step list"

text \<open>
  What the manager calls: the identity lookup on the tool server, the workflow service
  (resume probe and catalogue), the compiled graph's \<open>ainvoke\<close>, and the text of a role
  list in an f-string.
\<close>

record manager_env =
  get_user_info :: "string option \<Rightarrow> exn + (string option \<times> string list)"
  get_input_required_step :: "string option \<Rightarrow> exn + input_required_data option"
  get_steps_by_workflow_id :: "string option \<Rightarrow> string list \<Rightarrow> workflow_definition option"
  ainvoke :: "WorkflowState \<Rightarrow> exn + WorkflowState"
  py_repr_roles :: "string list \<Rightarrow> string"

text \<open>The start step of a fresh run: the first step id that no step names as its next step.\<close>

definition first_unreferenced :: "string list \<Rightarrow> string list \<Rightarrow> string option" where
  "first_unreferenced ids next_ids = find (\<lambda>sid. sid \<notin> set next_ids) ids"

text \<open>
  The state that \<open>process_workflow\<close> assembles from the message, the identity, the probe's
  row (if any) and the workflow. Fields that the constructor call does not name keep the
  defaults of the dataclass.
\<close>

definition seed_state ::
  "AgentInputMessage \<Rightarrow> string option \<Rightarrow> string list \<Rightarrow> input_required_data option
     \<Rightarrow> string option \<Rightarrow> workflow_definition \<Rightarrow> WorkflowState" where
  "seed_state agent_input uid roles probe wf_id workflow =
     (let sts = wf_steps workflow;
          ids = map step_id sts;
          next_ids = List.map_filter next_step_id sts;
          start0 = (case probe of None \<Rightarrow> None | Some r \<Rightarrow> ir_step_id r);
          start = (case start0 of None \<Rightarrow> first_unreferenced ids next_ids | Some s \<Rightarrow> Some s);
          data0 = (case probe of None \<Rightarrow> [] | Some r \<Rightarrow> ir_workflow_state r);
          data = (if \<not> (case map_of data0 ''workflow_name'' of None \<Rightarrow> False | Some v \<Rightarrow> truthy v)
                  then AList.update ''workflow_id'' (json_of_opt wf_id)
                         (AList.update ''workflow_name'' (json_of_opt (wf_name workflow)) data0)
                  else data0)
      in \<lparr>input = msg_input agent_input,
          input_data = (case msg_input_data agent_input of None \<Rightarrow> [] | Some d \<Rightarrow> d),
          token = msg_token agent_input,
          event_log = [],
          context_id = None,
          is_new_conversation = (case probe of None \<Rightarrow> True | Some _ \<Rightarrow> False),
          status = ''in_progress'',
          workflow_id = wf_id,
          workflow_run_id = msg_task_id agent_input,
          workflow_name = wf_name workflow,
          worflow_exit_keywords = workflow_exit_keywords workflow,
          current_step_run_id = (case probe of None \<Rightarrow> None | Some r \<Rightarrow> ir_step_run_id r),
          go_to_step_id = None,
          workflow_state = data,
          task_state = TaskState_working,
          wf_output = JObj [],
          step_ids = ids,
          next_step_ids = next_ids,
          start_step_id = start,
          steps = sts,
          run_id = None,
          user_id = uid,
          user_roles = roles\<rparr>)"

definition process_workflow :: "manager_env \<Rightarrow> AgentInputMessage \<Rightarrow> exn + AgentOutputMessage" where
  "process_workflow env agent_input =
     (case get_user_info env (msg_token agent_input) of
        Inl e \<Rightarrow> Inl e
      | Inr (uid, roles) \<Rightarrow>
          (case get_input_required_step env (msg_task_id agent_input) of
             Inl e \<Rightarrow> Inl e
           | Inr probe \<Rightarrow>
               (let wf_id = (case probe of
                               None \<Rightarrow> msg_workflow_id agent_input
                             | Some r \<Rightarrow> ir_workflow_id r)
                in case get_steps_by_workflow_id env wf_id roles of
                     None \<Rightarrow>
                       Inl (Exn ''ValueError''
                              (''Workflow '' @ [CHR 0x27] @ fmt_opt wf_id @ [CHR 0x27]
                                 @ '' not found or access denied for roles '' @ [CHR 0x27]
                                 @ py_repr_roles env roles @ [CHR 0x27]))
                   | Some workflow \<Rightarrow>
                       (let ws = seed_state agent_input uid roles probe wf_id workflow in
                        if step_ids ws = [] \<or> steps ws = [] then
                          Inl (Exn ''AttributeError'' (no_attribute ''NoneType'' ''ainvoke''))
                        else
                          (case ainvoke env ws of
                             Inl e \<Rightarrow> Inl e
                           | Inr final \<Rightarrow>
                               Inr \<lparr>out_output = wf_output final,
                                    out_task_state = task_state final,
                                    out_status = status final,
                                    out_event_log = event_log final,
                                    out_workflow_id = workflow_id final,
                                    out_workflow_name = workflow_name final\<rparr>)))))"

section \<open>A concrete workflow and concrete collaborators\<close>

text \<open>
  The examples below run the handlers on a three-step workflow: \<open>A\<close> asks the user,
  \<open>B\<close> calls a tool, \<open>C\<close> gives the final response. The collaborators are fixed on the
  few inputs that the examples give them: a template \<open>{{ v }}\<close> has the one variable
  \<open>v\<close> and renders to the text stored under \<open>v\<close>; \<open>eval\<close> of \<open>True\<close> and \<open>False\<close>
  is that truth value and \<open>eval\<close> of another name raises \<open>NameError\<close>; \<open>json.loads\<close> reads
  \<open>42\<close> and \<open>{}\<close>; the JSON path \<open>$\<close> is the document and \<open>$.k\<close> its member \<open>k\<close>;
  parameters without path references resolve to themselves; the texts are ASCII, where
  \<open>str.lower()\<close> maps \<open>A\<close> to \<open>Z\<close> to \<open>a\<close> to \<open>z\<close> and nothing else.
\<close>

definition demo_lower_char :: "char \<Rightarrow> char" where
  "demo_lower_char c =
     (case map_of (zip ''ABCDEFGHIJKLMNOPQRSTUVWXYZ'' ''abcdefghijklmnopqrstuvwxyz'') c of
        Some l \<Rightarrow> l
      | None \<Rightarrow> c)"

definition demo_lower :: "string \<Rightarrow> string" where
  "demo_lower s = map demo_lower_char s"

definition demo_variable :: "string \<Rightarrow> string option" where
  "demo_variable t =
     (if t = ''{{ a }}'' then Some ''a''
      else if t = ''{{ b }}'' then Some ''b''
      else if t = ''{{ c }}'' then Some ''c''
      else None)"

definition demo_render :: "string option \<Rightarrow> dict \<Rightarrow> exn + string" where
  "demo_render t ctx =
     (case t of
        None \<Rightarrow> Inl (Exn ''TypeError'' ''template source is None'')
      | Some src \<Rightarrow>
          (case demo_variable src of
             None \<Rightarrow> Inr src
           | Some v \<Rightarrow>
               (case map_of ctx v of
                  Some (JStr txt) \<Rightarrow> Inr txt
                | Some JNull \<Rightarrow> Inr ''None''
                | _ \<Rightarrow> Inr [])))"

definition demo_eval :: "string \<Rightarrow> exn + bool" where
  "demo_eval txt =
     (if txt = ''True'' then Inr True
      else if txt = ''False'' then Inr False
      else Inl (Exn ''NameError'' (''name '' @ [CHR 0x27] @ txt @ [CHR 0x27] @ '' is not defined'')))"

definition demo_loads :: "string \<Rightarrow> exn + json" where
  "demo_loads txt =
     (if txt = ''42'' then Inr (JInt 42)
      else if txt = ''{}'' then Inr (JObj [])
      else Inl (Exn ''JSONDecodeError'' ''Expecting value: line 1 column 1 (char 0)''))"

fun demo_extract :: "json \<Rightarrow> json \<Rightarrow> json" where
  "demo_extract doc (JStr p) =
     (if p = ''$'' then doc
      else (case doc of
              JObj kvs \<Rightarrow> (case map_of kvs (drop 2 p) of Some v \<Rightarrow> v | None \<Rightarrow> JNull)
            | _ \<Rightarrow> JNull))"
| "demo_extract doc _ = JNull"

definition demo_ext :: externals where
  "demo_ext =
     \<lparr>find_undeclared_variables =
        (\<lambda>t. Inr (case demo_variable t of None \<Rightarrow> [] | Some v \<Rightarrow> [v])),
      render = demo_render,
      py_eval = demo_eval,
      py_lower = demo_lower,
      py_str = (\<lambda>v. ''None''),
      py_repr_rule = (\<lambda>r. ''{...}''),
      json_loads = demo_loads,
      json_dumps = (\<lambda>s. [CHR 0x22] @ s @ [CHR 0x22]),
      call_tool = (\<lambda>name params. ToolReplied ''42''),
      resolve_jsonpath_in_params = (\<lambda>params doc. params),
      extract_json_path_value = demo_extract\<rparr>"

definition rule_on :: "string \<Rightarrow> string \<Rightarrow> orchestration_rule" where
  "rule_on v target = \<lparr>condition = Some (''{{ '' @ v @ '' }}''), go_to_step = Some target\<rparr>"

definition demo_interaction :: "orchestration_rule list \<Rightarrow> user_interaction" where
  "demo_interaction rules =
     \<lparr>user_message = Some ''Which one?'', expected_data_key = [''a'', ''b'', ''c''],
      orchestration_rules = rules\<rparr>"

definition demo_action :: system_action_details where
  "demo_action =
     \<lparr>tool_name = Some ''lookup'', inputs = JObj [(''q'', JStr ''plain'')],
      error_mapping = JObj [], success_mapping = JObj [], output_mapping = JNull\<rparr>"

definition demo_step :: "string \<Rightarrow> string option \<Rightarrow> string \<Rightarrow> orchestration_rule list \<Rightarrow> step" where
  "demo_step sid next ty rules =
     \<lparr>step_id = sid, next_step_id = next, step_type = ty, failure_message = None,
      user_interaction = demo_interaction rules, system_action_details = demo_action\<rparr>"

definition demo_steps :: "step list" where
  "demo_steps =
     [demo_step ''A'' (Some ''B'') ''USER_INPUT''
        [rule_on ''a'' ''C'', rule_on ''b'' ''B'', rule_on ''c'' ''C''],
      demo_step ''B'' (Some ''C'') ''SYSTEM_ACTION'' [],
      demo_step ''C'' None ''FINAL_RESPONSE'' []]"

text \<open>A resumed run of the workflow, suspended at \<open>A\<close>, with the user's reply in \<open>input_data\<close>.\<close>

definition demo_state :: "dict \<Rightarrow> WorkflowState" where
  "demo_state reply =
     \<lparr>input = None, input_data = reply, token = Some ''secret'', event_log = [],
      context_id = None, is_new_conversation = False, status = ''in_progress'',
      workflow_id = Some ''wf1'', workflow_run_id = Some ''run1'',
      workflow_name = Some ''Demo'', worflow_exit_keywords = Some [''quit''],
      current_step_run_id = Some ''sr1'', go_to_step_id = None,
      workflow_state = [(''workflow_name'', JStr ''Demo'')], task_state = TaskState_working,
      wf_output = JObj [], step_ids = [''A'', ''B'', ''C''], next_step_ids = [''B'', ''C''],
      start_step_id = Some ''A'', steps = demo_steps, run_id = None, user_id = Some ''u1'',
      user_roles = [''admin'']\<rparr>"

text \<open>
  A manager whose journal has a pending row at step \<open>A\<close> for the run \<open>run1\<close> and none
  for any other run, whose catalogue has the workflow \<open>wf1\<close>, and whose graph run records
  in the event log whether the state it was given calls itself a new conversation.
\<close>

definition demo_env :: manager_env where
  "demo_env =
     \<lparr>get_user_info = (\<lambda>tok. Inr (Some ''u1'', [''admin''])),
      get_input_required_step =
        (\<lambda>rid. Inr (if rid = Some ''run1''
                       then Some \<lparr>ir_step_id = Some ''A'', ir_workflow_id = Some ''wf1'',
                                  ir_step_run_id = Some ''sr1'',
                                  ir_workflow_state = [(''workflow_name'', JStr ''Demo'')]\<rparr>
                       else None)),
      get_steps_by_workflow_id =
        (\<lambda>wid roles. if wid = Some ''wf1''
                      then Some \<lparr>wf_name = Some ''Demo'',
                                 workflow_exit_keywords = Some [''quit''],
                                 wf_steps = demo_steps\<rparr>
                      else None),
      ainvoke =
        (\<lambda>ws. Inr (ws\<lparr>event_log := [if is_new_conversation ws then ''new'' else ''resumed'']\<rparr>)),
      py_repr_roles = (\<lambda>roles. ''[...]'')\<rparr>"

definition demo_message :: "string \<Rightarrow> bool \<Rightarrow> AgentInputMessage" where
  "demo_message task advisory =
     \<lparr>msg_workflow_id = Some ''wf1'', msg_task_id = Some task, msg_context_id = None,
      msg_token = Some ''secret'', msg_input = None, msg_input_data = None,
      msg_is_new_conversation = advisory\<rparr>"

section \<open>Properties of the successor function\<close>

lemmas TaskState_defs =
  TaskState_working_def TaskState_input_required_def TaskState_completed_def
  TaskState_failed_def TaskState_canceled_def

lemmas demo_defs =
  demo_state_def demo_steps_def demo_step_def demo_interaction_def demo_action_def rule_on_def

text \<open>
  The configured next step of a step id is the \<open>next_step_id\<close> of the last step of the
  list that carries the id.
\<close>

lemma step_to_next_snoc:
  "step_to_next (sts @ [st]) = (step_to_next sts)(step_id st \<mapsto> next_step_id st)"
  by (simp add: step_to_next_def)

lemma step_to_next_get_last:
  "step_to_next_get sts sid =
     (case find (\<lambda>st. step_id st = sid) (rev sts) of
        None \<Rightarrow> None
      | Some st \<Rightarrow> next_step_id st)"
proof (induction sts rule: rev_induct)
  case Nil
  show ?case by (simp add: step_to_next_get_def step_to_next_def)
next
  case (snoc st sts)
  then show ?case
    by (simp add: step_to_next_get_def step_to_next_snoc)
qed

text \<open>
  When the start step is one of the step ids, the edge scope is the part of the list from
  its first occurrence on.
\<close>

lemma edge_scope_suffix:
  assumes "s \<in> set ids"
  shows "\<exists>pre. ids = pre @ step_ids_used_for_edges ids (Some s) \<and> s \<notin> set pre
           \<and> hd (step_ids_used_for_edges ids (Some s)) = s"
proof (intro exI conjI)
  show "ids = takeWhile (\<lambda>x. x \<noteq> s) ids @ step_ids_used_for_edges ids (Some s)"
    using assms by (simp add: step_ids_used_for_edges_def)
  show "s \<notin> set (takeWhile (\<lambda>x. x \<noteq> s) ids)"
    by (auto dest: set_takeWhileD)
  have "dropWhile (\<lambda>x. x \<noteq> s) ids \<noteq> []"
    using assms by (simp add: dropWhile_eq_Nil_conv)
  then have "\<not> (hd (dropWhile (\<lambda>x. x \<noteq> s) ids) \<noteq> s)"
    by (rule hd_dropWhile)
  then show "hd (step_ids_used_for_edges ids (Some s)) = s"
    using assms by (simp add: step_ids_used_for_edges_def)
qed

text \<open>
  Claim C1. For every conditional edge that \<open>build_graph\<close> adds, that is for every step id
  \<open>sid\<close> of the edge scope, and for every state \<open>s\<close>, the successor function decides
  by priority. A field is \<^emph>\<open>set\<close> when it passes the source's test \<open>if x:\<close>, that is
  when it is a string that is not empty.
  \<^enum> If \<open>go_to_step_id\<close> is set, it is returned and the state has it cleared.
  \<^enum> Else, if \<open>task_state\<close> is input-required, failed or canceled, the result is \<open>END\<close>.
  \<^enum> Else, if the step's configured next step is set and in the edge scope, it is returned.
  \<^enum> Else the result is \<open>END\<close>.
  In the last three cases the state is unchanged.
\<close>

theorem should_continue_priority:
  assumes edge: "(sid, successor) \<in> set (conditional_edges w)"
  shows "sid \<in> set (step_ids_used_for_edges (step_ids w) (start_step_id w))
    \<and> (\<forall>g. go_to_step_id s = Some g \<and> g \<noteq> []
          \<longrightarrow> successor s = (g, s\<lparr>go_to_step_id := None\<rparr>))
    \<and> (\<not> str_truthy (go_to_step_id s)
          \<and> task_state s \<in> {TaskState_input_required, TaskState_failed, TaskState_canceled}
          \<longrightarrow> successor s = (END, s))
    \<and> (\<forall>n. \<not> str_truthy (go_to_step_id s)
          \<and> task_state s \<notin> {TaskState_input_required, TaskState_failed, TaskState_canceled}
          \<and> step_to_next_get (steps w) sid = Some n \<and> n \<noteq> []
          \<and> n \<in> set (step_ids_used_for_edges (step_ids w) (start_step_id w))
          \<longrightarrow> successor s = (n, s))
    \<and> (\<not> str_truthy (go_to_step_id s)
          \<and> task_state s \<notin> {TaskState_input_required, TaskState_failed, TaskState_canceled}
          \<and> \<not> (\<exists>n. step_to_next_get (steps w) sid = Some n \<and> n \<noteq> []
                   \<and> n \<in> set (step_ids_used_for_edges (step_ids w) (start_step_id w)))
          \<longrightarrow> successor s = (END, s))"
proof -
  let ?scope = "step_ids_used_for_edges (step_ids w) (start_step_id w)"
  from edge have sid: "sid \<in> set ?scope"
    and succ: "successor = should_continue ?scope (step_to_next_get (steps w) sid)"
    by (auto simp: conditional_edges_def split: if_splits)
  have a: "\<And>g. go_to_step_id s = Some g \<Longrightarrow> g \<noteq> [] \<Longrightarrow>
             successor s = (g, s\<lparr>go_to_step_id := None\<rparr>)"
    by (simp add: succ should_continue_def)
  have unset: "\<not> str_truthy (go_to_step_id s) \<Longrightarrow> when_truthy (go_to_step_id s) = None"
    by (cases "go_to_step_id s") auto
  have b: "\<not> str_truthy (go_to_step_id s) \<Longrightarrow>
           task_state s \<in> {TaskState_input_required, TaskState_failed, TaskState_canceled} \<Longrightarrow>
           successor s = (END, s)"
    by (auto simp: succ should_continue_def unset)
  have c: "\<And>n. \<not> str_truthy (go_to_step_id s) \<Longrightarrow>
           task_state s \<notin> {TaskState_input_required, TaskState_failed, TaskState_canceled} \<Longrightarrow>
           step_to_next_get (steps w) sid = Some n \<Longrightarrow> n \<noteq> [] \<Longrightarrow> n \<in> set ?scope \<Longrightarrow>
           successor s = (n, s)"
    by (simp add: succ should_continue_def unset)
  have d: "\<not> str_truthy (go_to_step_id s) \<Longrightarrow>
           task_state s \<notin> {TaskState_input_required, TaskState_failed, TaskState_canceled} \<Longrightarrow>
           \<not> (\<exists>n. step_to_next_get (steps w) sid = Some n \<and> n \<noteq> [] \<and> n \<in> set ?scope) \<Longrightarrow>
           successor s = (END, s)"
    by (cases "step_to_next_get (steps w) sid")
       (auto simp: succ should_continue_def unset)
  from sid a b c d show ?thesis by blast
qed

lemma demo_scope: "step_ids_used_for_edges [''A'', ''B'', ''C''] (Some ''A'') = [''A'', ''B'', ''C'']"
  by (simp add: step_ids_used_for_edges_def)

lemma demo_next_A: "step_to_next_get demo_steps ''A'' = Some ''B''"
  by (simp add: step_to_next_get_def step_to_next_def demo_defs)

text \<open>
  The edge of step \<open>A\<close> in the example workflow: a pending jump to \<open>C\<close> is taken and
  cleared, a failed step ends the run, a completed step goes on to \<open>B\<close>.
\<close>

theorem should_continue_priority_witness:
  "(''A'', should_continue [''A'', ''B'', ''C''] (Some ''B''))
      \<in> set (conditional_edges (demo_state []))
   \<and> should_continue [''A'', ''B'', ''C''] (Some ''B'')
        ((demo_state [])\<lparr>go_to_step_id := Some ''C''\<rparr>) = (''C'', demo_state [])
   \<and> should_continue [''A'', ''B'', ''C''] (Some ''B'')
        ((demo_state [])\<lparr>task_state := TaskState_failed\<rparr>)
      = (END, (demo_state [])\<lparr>task_state := TaskState_failed\<rparr>)
   \<and> should_continue [''A'', ''B'', ''C''] (Some ''B'')
        ((demo_state [])\<lparr>task_state := TaskState_completed\<rparr>)
      = (''B'', (demo_state [])\<lparr>task_state := TaskState_completed\<rparr>)"
proof -
  let ?f = "should_continue [''A'', ''B'', ''C''] (Some ''B'')"
  have edge: "(''A'', ?f) \<in> set (conditional_edges (demo_state []))"
    unfolding conditional_edges_def
    by (simp add: demo_scope demo_next_A[unfolded demo_steps_def] demo_state_def demo_steps_def)
  have st: "steps (demo_state []) = demo_steps" "step_ids (demo_state []) = [''A'', ''B'', ''C'']"
    "start_step_id (demo_state []) = Some ''A''"
    by (simp_all add: demo_state_def)
  note p = should_continue_priority[OF edge, unfolded st demo_scope demo_next_A]
  have 1: "?f ((demo_state [])\<lparr>go_to_step_id := Some ''C''\<rparr>) = (''C'', demo_state [])"
    using p[of "(demo_state [])\<lparr>go_to_step_id := Some ''C''\<rparr>"] by (simp add: demo_state_def)
  have 2: "?f ((demo_state [])\<lparr>task_state := TaskState_failed\<rparr>)
      = (END, (demo_state [])\<lparr>task_state := TaskState_failed\<rparr>)"
    using p[of "(demo_state [])\<lparr>task_state := TaskState_failed\<rparr>"] by (simp add: demo_state_def)
  have 3: "?f ((demo_state [])\<lparr>task_state := TaskState_completed\<rparr>)
      = (''B'', (demo_state [])\<lparr>task_state := TaskState_completed\<rparr>)"
    using p[of "(demo_state [])\<lparr>task_state := TaskState_completed\<rparr>"]
    by (simp add: demo_state_def TaskState_defs)
  from edge 1 2 3 show ?thesis by blast
qed

section \<open>Properties of the USER\_INPUT handler\<close>

text \<open>
  Claim C4, as the code has it. The exit test is guarded by the text itself
  (\<open>workflow_input_text and ...\<close>): at a USER\_INPUT step, in either mode, a free text
  that is not empty and that equals one of the exit keywords case-insensitively, that is
  after \<open>str.lower()\<close> on both sides, makes the handler return at once. The returned
  state is the given one with \<open>task_state\<close> canceled and the termination summary as
  \<open>output\<close>: the scratchpad is as it was, nothing was ingested, and neither the step
  definition nor the template library nor \<open>eval\<close> has a say in the result, so no
  orchestration rule was evaluated.
\<close>

theorem exit_keyword_dominance:
  assumes inp: "input s = Some t" "t \<noteq> []"
    and kws: "worflow_exit_keywords s = Some kws"
    and eq: "py_lower ext t \<in> set (map (py_lower ext) kws)"
  shows "user_input_with_step ext step_detail s =
           Inr (s\<lparr>task_state := TaskState_canceled,
                  wf_output := JObj [(''summary'',
                    JStr (''Workflow '' @ fmt_opt (workflow_id s) @ '' (''
                            @ fmt_opt (workflow_name s) @ '') terminated.''))]\<rparr>)"
proof -
  have "exit_keyword_received ext (input s) (worflow_exit_keywords s) = Inr True"
    using assms by (simp add: exit_keyword_received_def)
  then show ?thesis by (simp add: user_input_with_step_def)
qed

lemma lower_QUIT: "py_lower demo_ext ''QUIT'' = ''quit''" "py_lower demo_ext ''quit'' = ''quit''"
  by (simp_all add: demo_ext_def demo_lower_def demo_lower_char_def)

text \<open>The user answers \<open>QUIT\<close> to the workflow whose exit keyword is \<open>quit\<close>.\<close>

theorem exit_keyword_dominance_witness:
  "input ((demo_state [(''a'', JStr ''True'')])\<lparr>input := Some ''QUIT''\<rparr>) = Some ''QUIT''
   \<and> ''QUIT'' \<noteq> []
   \<and> worflow_exit_keywords ((demo_state [(''a'', JStr ''True'')])\<lparr>input := Some ''QUIT''\<rparr>)
       = Some [''quit'']
   \<and> py_lower demo_ext ''QUIT'' \<in> set (map (py_lower demo_ext) [''quit''])
   \<and> user_input_with_step demo_ext (hd demo_steps)
         ((demo_state [(''a'', JStr ''True'')])\<lparr>input := Some ''QUIT''\<rparr>)
       = Inr ((demo_state [(''a'', JStr ''True'')])
               \<lparr>input := Some ''QUIT'', task_state := TaskState_canceled,
                wf_output := JObj [(''summary'', JStr ''Workflow wf1 (Demo) terminated.'')]\<rparr>)"
proof -
  let ?s = "(demo_state [(''a'', JStr ''True'')])\<lparr>input := Some ''QUIT''\<rparr>"
  have h: "input ?s = Some ''QUIT''" "''QUIT'' \<noteq> []"
    "worflow_exit_keywords ?s = Some [''quit'']" "py_lower demo_ext ''QUIT'' \<in> set (map (py_lower demo_ext) [''quit''])"
    by (simp_all add: demo_state_def lower_QUIT)
  show ?thesis
    using h exit_keyword_dominance[OF h, of "hd demo_steps"]
    by (simp add: demo_state_def)
qed

text \<open>
  Claim C4 as stated fails for the empty text. With the empty string among the exit
  keywords and an empty free text, the text equals a keyword, yet the guard skips the exit
  test: the resumed step completes instead of being canceled.
\<close>

theorem exit_keyword_empty_text_counterexample:
  "py_lower demo_ext [] \<in> set (map (py_lower demo_ext) [[]])
   \<and> user_input_with_step demo_ext (demo_step ''A'' None ''USER_INPUT'' [])
        ((demo_state [])\<lparr>input := Some [], worflow_exit_keywords := Some [[]]\<rparr>)
      = Inr ((demo_state [])\<lparr>input := Some [], worflow_exit_keywords := Some [[]],
                              task_state := TaskState_completed\<rparr>)
   \<and> TaskState_completed \<noteq> TaskState_canceled"
  by (simp add: user_input_with_step_def exit_keyword_received_def resume_turn_def
        ingest_reply_def demo_state_def demo_step_def demo_interaction_def demo_ext_def
        demo_lower_def
        TaskState_completed_def TaskState_canceled_def)

text \<open>
  A rule that is passed over leaves the loop to go on with the rest of the list; only the
  binding of \<open>template_variables\<close> may have changed.
\<close>

lemma run_lacks_keys:
  "lacks_keys p \<Longrightarrow>
   run_orchestration_rules ext ctx (p # rest) tv = run_orchestration_rules ext ctx rest tv"
  by (cases "condition p"; cases "go_to_step p") (auto simp: lacks_keys_def)

lemma run_references_absent:
  "references_absent ext ctx p \<Longrightarrow>
   \<exists>vars. run_orchestration_rules ext ctx (p # rest) tv
           = run_orchestration_rules ext ctx rest (Some vars)"
  by (auto simp: references_absent_def list_ex_iff filter_empty_conv
           split: option.splits sum.splits)

lemma run_evaluates_False:
  "evaluates_to ext ctx p False \<Longrightarrow>
   \<exists>vars. run_orchestration_rules ext ctx (p # rest) tv
           = run_orchestration_rules ext ctx rest (Some vars)"
  by (auto simp: evaluates_to_def list_all_iff filter_empty_conv
           split: option.splits sum.splits)

lemma run_passed_over:
  "passed_over ext ctx p \<Longrightarrow>
   \<exists>tv'. run_orchestration_rules ext ctx (p # rest) tv
          = run_orchestration_rules ext ctx rest tv'"
  unfolding passed_over_def
  using run_lacks_keys run_references_absent run_evaluates_False by metis

lemma run_prefix_passed_over:
  "\<forall>p\<in>set pre. passed_over ext ctx p \<Longrightarrow>
   \<exists>tv'. run_orchestration_rules ext ctx (pre @ rest) tv
          = run_orchestration_rules ext ctx rest tv'"
proof (induction pre arbitrary: tv)
  case Nil
  then show ?case by auto
next
  case (Cons p pre)
  from Cons.prems have "passed_over ext ctx p" by simp
  then obtain tv1 where
    "run_orchestration_rules ext ctx (p # (pre @ rest)) tv
       = run_orchestration_rules ext ctx (pre @ rest) tv1"
    using run_passed_over by blast
  moreover obtain tv2 where
    "run_orchestration_rules ext ctx (pre @ rest) tv1 = run_orchestration_rules ext ctx rest tv2"
    using Cons.IH[of tv1] Cons.prems by auto
  ultimately show ?case by auto
qed

lemma run_evaluates_True:
  assumes "evaluates_to ext ctx r True" "go_to_step r = Some target"
  shows "\<exists>c vars. condition r = Some c \<and> find_undeclared_variables ext c = Inr vars
           \<and> run_orchestration_rules ext ctx (r # post) tv = Inr (Some target, Some vars)"
  using assms
  by (auto simp: evaluates_to_def list_all_iff filter_empty_conv
           split: option.splits sum.splits)

lemma run_first_match:
  assumes "\<forall>p\<in>set pre. passed_over ext ctx p"
    and "evaluates_to ext ctx r True" "go_to_step r = Some target"
  shows "\<exists>c vars. condition r = Some c \<and> find_undeclared_variables ext c = Inr vars
           \<and> run_orchestration_rules ext ctx (pre @ r # post) tv = Inr (Some target, Some vars)"
proof -
  obtain tv' where
    "run_orchestration_rules ext ctx (pre @ r # post) tv
       = run_orchestration_rules ext ctx (r # post) tv'"
    using run_prefix_passed_over[OF assms(1)] by blast
  then show ?thesis using run_evaluates_True[OF assms(2,3), of post tv'] by auto
qed

lemma ingest_reply_rules:
  "ingest_reply ext (ui\<lparr>orchestration_rules := rs\<rparr>) s = ingest_reply ext ui s"
  by (simp add: ingest_reply_def)

text \<open>
  Claim C5. In resume mode, once the exit test and the ingestion let the handler go on to
  the rules (\<open>s1\<close> is the state after ingestion), the rules are tried in list order
  against the scratchpad: if every rule before \<open>r\<close> is passed over (it lacks a key, or it
  references a variable that the scratchpad does not have and is skipped, or its rendered
  condition evaluates to a falsy value) and the rendered condition of \<open>r\<close> evaluates
  truthy, then the handler returns with \<open>go_to_step_id\<close> set to the \<open>go_to_step\<close> of
  \<open>r\<close>. No rule after \<open>r\<close> is evaluated: whatever rules follow \<open>r\<close>, also rules whose
  evaluation would raise, the handler's result is the same.
\<close>

theorem first_matching_rule_wins:
  assumes mode: "\<not> is_new_conversation s" "start_step_id s = Some (step_id step_detail)"
      "\<not> str_truthy (go_to_step_id s)"
    and noexit: "exit_keyword_received ext (input s) (worflow_exit_keywords s) = Inr False"
    and ingest: "ingest_reply ext (user_interaction step_detail) s = (s1, False)"
    and rules: "orchestration_rules (user_interaction step_detail) = pre @ r # post"
    and pre: "\<forall>p\<in>set pre. passed_over ext (workflow_state s1) p"
    and r: "evaluates_to ext (workflow_state s1) r True" "go_to_step r = Some target"
  shows "(\<exists>c vars. condition r = Some c \<and> find_undeclared_variables ext c = Inr vars
            \<and> user_input_with_step ext step_detail s =
                Inr (s1\<lparr>go_to_step_id := Some target,
                        workflow_state := reset_template_variables vars (workflow_state s1),
                        input_data := reset_template_variables vars (input_data s1),
                        task_state := TaskState_completed\<rparr>))
       \<and> (\<forall>post'. user_input_with_step ext
              (step_detail\<lparr>user_interaction :=
                 (user_interaction step_detail)\<lparr>orchestration_rules := pre @ r # post'\<rparr>\<rparr>) s
            = user_input_with_step ext step_detail s)"
proof -
  have resume: "\<And>sd. step_id sd = step_id step_detail \<Longrightarrow>
      user_input_with_step ext sd s = resume_turn ext (user_interaction sd) s"
    using mode noexit by (simp add: user_input_with_step_def)
  have turn: "\<And>ui post'. ingest_reply ext ui s = (s1, False) \<Longrightarrow>
      orchestration_rules ui = pre @ r # post' \<Longrightarrow>
      \<exists>c vars. condition r = Some c \<and> find_undeclared_variables ext c = Inr vars
        \<and> resume_turn ext ui s =
             Inr (s1\<lparr>go_to_step_id := Some target,
                     workflow_state := reset_template_variables vars (workflow_state s1),
                     input_data := reset_template_variables vars (input_data s1),
                     task_state := TaskState_completed\<rparr>)"
  proof -
    fix ui post'
    assume i: "ingest_reply ext ui s = (s1, False)" and rs: "orchestration_rules ui = pre @ r # post'"
    obtain c vars where c: "condition r = Some c" "find_undeclared_variables ext c = Inr vars"
      and run: "run_orchestration_rules ext (workflow_state s1) (pre @ r # post') None
                  = Inr (Some target, Some vars)"
      using run_first_match[OF pre r, of post' None] by blast
    have "resume_turn ext ui s =
             Inr (s1\<lparr>go_to_step_id := Some target,
                     workflow_state := reset_template_variables vars (workflow_state s1),
                     input_data := reset_template_variables vars (input_data s1),
                     task_state := TaskState_completed\<rparr>)"
      by (simp add: resume_turn_def i rs run)
    with c show "\<exists>c vars. condition r = Some c \<and> find_undeclared_variables ext c = Inr vars
        \<and> resume_turn ext ui s =
             Inr (s1\<lparr>go_to_step_id := Some target,
                     workflow_state := reset_template_variables vars (workflow_state s1),
                     input_data := reset_template_variables vars (input_data s1),
                     task_state := TaskState_completed\<rparr>)" by blast
  qed
  have first: "\<exists>c vars. condition r = Some c \<and> find_undeclared_variables ext c = Inr vars
            \<and> user_input_with_step ext step_detail s =
                Inr (s1\<lparr>go_to_step_id := Some target,
                        workflow_state := reset_template_variables vars (workflow_state s1),
                        input_data := reset_template_variables vars (input_data s1),
                        task_state := TaskState_completed\<rparr>)"
    using turn[OF ingest rules] resume[of step_detail] by simp
  have second: "\<And>post'. user_input_with_step ext
              (step_detail\<lparr>user_interaction :=
                 (user_interaction step_detail)\<lparr>orchestration_rules := pre @ r # post'\<rparr>\<rparr>) s
            = user_input_with_step ext step_detail s"
  proof -
    fix post'
    let ?ui = "(user_interaction step_detail)\<lparr>orchestration_rules := pre @ r # post'\<rparr>"
    have i: "ingest_reply ext ?ui s = (s1, False)" using ingest by (simp add: ingest_reply_rules)
    have "orchestration_rules ?ui = pre @ r # post'" by simp
    from turn[OF i this] first
    show "user_input_with_step ext (step_detail\<lparr>user_interaction := ?ui\<rparr>) s
            = user_input_with_step ext step_detail s"
      using resume[of "step_detail\<lparr>user_interaction := ?ui\<rparr>"] by auto
  qed
  from first second show ?thesis by blast
qed




lemmas demo_ext_defs = demo_ext_def demo_variable_def demo_render_def demo_eval_def

text \<open>
  The user's reply makes rule \<open>a\<close> false and rule \<open>b\<close> true; rule \<open>c\<close>, whose
  evaluation would raise, comes after the match.
\<close>

theorem first_matching_rule_wins_witness:
  "passed_over demo_ext
      [(''workflow_name'', JStr ''Demo''), (''a'', JStr ''False''), (''b'', JStr ''True''),
       (''c'', JStr ''oops'')] (rule_on ''a'' ''C'')
   \<and> evaluates_to demo_ext
      [(''workflow_name'', JStr ''Demo''), (''a'', JStr ''False''), (''b'', JStr ''True''),
       (''c'', JStr ''oops'')] (rule_on ''b'' ''B'') True
   \<and> user_input_with_step demo_ext (hd demo_steps)
        (demo_state [(''a'', JStr ''False''), (''b'', JStr ''True''), (''c'', JStr ''oops'')])
      = Inr ((demo_state [(''a'', JStr ''False''), (''b'', JStr ''True''), (''c'', JStr ''oops'')])
              \<lparr>input_data := [(''a'', JStr ''False''), (''b'', JNull), (''c'', JStr ''oops'')],
               go_to_step_id := Some ''B'',
               workflow_state :=
                 [(''workflow_name'', JStr ''Demo''), (''a'', JStr ''False''), (''b'', JNull),
                  (''c'', JStr ''oops'')],
               task_state := TaskState_completed\<rparr>)"
proof -
  let ?reply = "[(''a'', JStr ''False''), (''b'', JStr ''True''), (''c'', JStr ''oops'')]"
  let ?s = "demo_state ?reply"
  let ?ctx = "[(''workflow_name'', JStr ''Demo''), (''a'', JStr ''False''),
               (''b'', JStr ''True''), (''c'', JStr ''oops'')]"
  let ?s1 = "?s\<lparr>workflow_state := ?ctx\<rparr>"
  have mode: "\<not> is_new_conversation ?s" "start_step_id ?s = Some (step_id (hd demo_steps))"
    "\<not> str_truthy (go_to_step_id ?s)"
    by (simp_all add: demo_defs)
  have noexit: "exit_keyword_received demo_ext (input ?s) (worflow_exit_keywords ?s) = Inr False"
    by (simp add: demo_defs exit_keyword_received_def)
  have ingest: "ingest_reply demo_ext (user_interaction (hd demo_steps)) ?s = (?s1, False)"
    by (simp add: demo_defs ingest_reply_def copy_expected_keys_def Let_def)
  have rules: "orchestration_rules (user_interaction (hd demo_steps))
                 = [rule_on ''a'' ''C''] @ rule_on ''b'' ''B'' # [rule_on ''c'' ''C'']"
    by (simp add: demo_defs)
  have pre: "\<forall>p\<in>set [rule_on ''a'' ''C'']. passed_over demo_ext (workflow_state ?s1) p"
    by (simp add: passed_over_def evaluates_to_def rule_on_def demo_ext_defs has_key_def)
  have r: "evaluates_to demo_ext (workflow_state ?s1) (rule_on ''b'' ''B'') True"
    "go_to_step (rule_on ''b'' ''B'') = Some ''B''"
    by (simp_all add: evaluates_to_def rule_on_def demo_ext_defs has_key_def)
  from first_matching_rule_wins[OF mode noexit ingest rules pre r]
  obtain c vars where "condition (rule_on ''b'' ''B'') = Some c"
    "find_undeclared_variables demo_ext c = Inr vars"
    "user_input_with_step demo_ext (hd demo_steps) ?s =
       Inr (?s1\<lparr>go_to_step_id := Some ''B'',
               workflow_state := reset_template_variables vars (workflow_state ?s1),
               input_data := reset_template_variables vars (input_data ?s1),
               task_state := TaskState_completed\<rparr>)"
    by blast
  moreover from this have "vars = [''b'']"
    by (auto simp: rule_on_def demo_ext_defs)
  ultimately have "user_input_with_step demo_ext (hd demo_steps) ?s
      = Inr (?s\<lparr>input_data := [(''a'', JStr ''False''), (''b'', JNull), (''c'', JStr ''oops'')],
               go_to_step_id := Some ''B'',
               workflow_state := [(''workflow_name'', JStr ''Demo''), (''a'', JStr ''False''),
                  (''b'', JNull), (''c'', JStr ''oops'')],
               task_state := TaskState_completed\<rparr>)"
    by (simp add: reset_template_variables_def demo_state_def)
  with pre r(1) show ?thesis by simp
qed

text \<open>
  Claim C2 at a concrete turn. Step \<open>A\<close> has the rules on \<open>a\<close>, \<open>b\<close> and \<open>c\<close>; the
  user's reply makes \<open>a\<close> false and \<open>b\<close> true. The reset block after the loop reads the
  local \<open>template_variables\<close>, which holds the variables of the rule that the loop
  processed last, here the matching rule on \<open>b\<close>. So \<open>b\<close> is null in the scratchpad
  and in \<open>input_data\<close>, while \<open>a\<close>, which the evaluated first rule references, keeps
  the user's value in both.
\<close>

theorem rule_variables_reset_only_for_last_rule:
  "user_input_with_step demo_ext (hd demo_steps)
        (demo_state [(''a'', JStr ''False''), (''b'', JStr ''True'')])
      = Inr ((demo_state [(''a'', JStr ''False''), (''b'', JStr ''True'')])
              \<lparr>input_data := [(''a'', JStr ''False''), (''b'', JNull)],
               go_to_step_id := Some ''B'',
               workflow_state :=
                 [(''workflow_name'', JStr ''Demo''), (''a'', JStr ''False''), (''b'', JNull)],
               task_state := TaskState_completed\<rparr>)
   \<and> map_of [(''workflow_name'', JStr ''Demo''), (''a'', JStr ''False''), (''b'', JNull)] ''a''
       \<noteq> Some JNull
   \<and> map_of [(''a'', JStr ''False''), (''b'', JNull)] ''a'' \<noteq> Some JNull"
  by (simp add: user_input_with_step_def exit_keyword_received_def resume_turn_def
        ingest_reply_def copy_expected_keys_def reset_template_variables_def Let_def
        demo_defs demo_ext_defs has_key_def)

section \<open>Properties of the journal wrapper\<close>

text \<open>
  The error upsert leaves a failed row under its key, and the wrapper hands on the
  exception of the handler after that upsert.
\<close>

lemma error_upsert_row:
  "\<exists>row. error_upsert db wrid key wfid sid t1 t2 snapshot err key = Some row
      \<and> row_status row = TaskState_failed \<and> completed_at row = Some t2
      \<and> error_response row = Some err \<and> row_workflow_state row = snapshot"
  by (cases "db key") (simp_all add: error_upsert_def)

lemma wrapper_reraises:
  assumes "func step_detail (ensure_step_run_id uuid1 ws0) = Inl (e, ws')"
  shows "\<exists>db'. process_workflow_run func uuid1 uuid2 t1 t2 step_detail ws0 db = (db', Inl (e, ws'))
           \<and> (\<exists>row. db' (current_step_run_id ws') = Some row
                 \<and> row_status row = TaskState_failed \<and> completed_at row = Some t2
                 \<and> error_response row
                     = Some (error_data step_detail
                               (workflow_run_id (ensure_step_run_id uuid1 ws0)) ws' e))"
proof -
  have "\<And>d a b c f g h. \<exists>row. error_upsert d a (current_step_run_id ws') b c f t2 g h
              (current_step_run_id ws') = Some row
            \<and> row_status row = TaskState_failed \<and> completed_at row = Some t2
            \<and> error_response row = Some h"
    using error_upsert_row by blast
  then show ?thesis using assms by (simp add: process_workflow_run_def Let_def)
qed

text \<open>An ingestion that goes on to the rules has not touched the status or the output.\<close>

lemma ingest_reply_continue:
  "ingest_reply ext ui s = (s1, False) \<Longrightarrow> task_state s1 = task_state s \<and> wf_output s1 = wf_output s
     \<and> current_step_run_id s1 = current_step_run_id s"
  by (auto simp: ingest_reply_def Let_def split: if_splits option.splits list.splits)

lemma run_evaluation_raises:
  assumes "evaluation_raises ext ctx r e"
  shows "\<exists>c. condition r = Some c
           \<and> run_orchestration_rules ext ctx (r # post) tv
               = Inl (invalid_rule ext r (eval_failed c e))"
  using assms
  by (auto simp: evaluation_raises_def list_all_iff filter_empty_conv
           split: option.splits sum.splits)

lemma run_first_raise:
  assumes "\<forall>p\<in>set pre. passed_over ext ctx p" and "evaluation_raises ext ctx r e"
  shows "\<exists>c. condition r = Some c
           \<and> run_orchestration_rules ext ctx (pre @ r # post) tv
               = Inl (invalid_rule ext r (eval_failed c e))"
proof -
  obtain tv' where
    "run_orchestration_rules ext ctx (pre @ r # post) tv
       = run_orchestration_rules ext ctx (r # post) tv'"
    using run_prefix_passed_over[OF assms(1)] by blast
  then show ?thesis using run_evaluation_raises[OF assms(2), of post tv'] by auto
qed

text \<open>
  Claim C7, as the code has it. In resume mode, when the rules before \<open>r\<close> are passed
  over and the condition of \<open>r\<close> renders but its evaluation raises \<open>e\<close>, the handler
  itself raises: a \<open>ValueError\<close> that wraps the error twice. The state is the one after
  ingestion, with \<open>task_state\<close> and \<open>output\<close> as they were on entry: no failed status
  and no summary is set. The journal wrapper (\<open>s\<close> is the state that it passes to the
  handler) records the step run as failed and raises the same exception to its caller.
\<close>

theorem rule_evaluation_error_is_raised:
  assumes s: "s = ensure_step_run_id uuid1 s0"
    and mode: "\<not> is_new_conversation s" "start_step_id s = Some (step_id step_detail)"
      "\<not> str_truthy (go_to_step_id s)"
    and noexit: "exit_keyword_received ext (input s) (worflow_exit_keywords s) = Inr False"
    and ingest: "ingest_reply ext (user_interaction step_detail) s = (s1, False)"
    and rules: "orchestration_rules (user_interaction step_detail) = pre @ r # post"
    and pre: "\<forall>p\<in>set pre. passed_over ext (workflow_state s1) p"
    and r: "evaluation_raises ext (workflow_state s1) r e"
  shows "\<exists>c db'. condition r = Some c
          \<and> user_input_with_step ext step_detail s
               = Inl (invalid_rule ext r (eval_failed c e), s1)
          \<and> exception_type (invalid_rule ext r (eval_failed c e)) = ''ValueError''
          \<and> task_state s1 = task_state s \<and> wf_output s1 = wf_output s
          \<and> process_workflow_run (user_input_with_step ext) uuid1 uuid2 t1 t2 step_detail s0 db
               = (db', Inl (invalid_rule ext r (eval_failed c e), s1))
          \<and> (\<exists>row. db' (current_step_run_id s) = Some row
                  \<and> row_status row = TaskState_failed)"
proof -
  obtain c where c: "condition r = Some c"
    and run: "run_orchestration_rules ext (workflow_state s1) (pre @ r # post) None
                = Inl (invalid_rule ext r (eval_failed c e))"
    using run_first_raise[OF pre r, of post None] by blast
  have h: "user_input_with_step ext step_detail s = Inl (invalid_rule ext r (eval_failed c e), s1)"
    using mode noexit by (simp add: user_input_with_step_def resume_turn_def ingest rules run)
  note keep = ingest_reply_continue[OF ingest]
  from h s have h0: "user_input_with_step ext step_detail (ensure_step_run_id uuid1 s0)
      = Inl (invalid_rule ext r (eval_failed c e), s1)" by simp
  from wrapper_reraises[where func = "user_input_with_step ext", OF h0, of uuid2 t1 t2 db]
  obtain db' row where
    "process_workflow_run (user_input_with_step ext) uuid1 uuid2 t1 t2 step_detail s0 db
       = (db', Inl (invalid_rule ext r (eval_failed c e), s1))"
    "db' (current_step_run_id s1) = Some row" "row_status row = TaskState_failed"
    by blast
  with c h keep show ?thesis
    by (auto simp: invalid_rule_def)
qed


text \<open>
  The reply makes rule \<open>a\<close> false, leaves \<open>b\<close> out, and gives \<open>c\<close> a text whose
  evaluation raises \<open>NameError\<close>.
\<close>

theorem rule_evaluation_error_is_raised_witness:
  "evaluation_raises demo_ext
      [(''workflow_name'', JStr ''Demo''), (''a'', JStr ''False''), (''c'', JStr ''oops'')]
      (rule_on ''c'' ''C'')
      (Exn ''NameError'' (''name '' @ [CHR 0x27] @ ''oops'' @ [CHR 0x27] @ '' is not defined''))
   \<and> user_input_with_step demo_ext (hd demo_steps)
        (demo_state [(''a'', JStr ''False''), (''c'', JStr ''oops'')])
      = Inl (invalid_rule demo_ext (rule_on ''c'' ''C'')
               (eval_failed ''{{ c }}''
                  (Exn ''NameError''
                     (''name '' @ [CHR 0x27] @ ''oops'' @ [CHR 0x27] @ '' is not defined''))),
             (demo_state [(''a'', JStr ''False''), (''c'', JStr ''oops'')])
               \<lparr>workflow_state :=
                  [(''workflow_name'', JStr ''Demo''), (''a'', JStr ''False''),
                   (''c'', JStr ''oops'')]\<rparr>)"
proof -
  let ?reply = "[(''a'', JStr ''False''), (''c'', JStr ''oops'')]"
  let ?s = "demo_state ?reply"
  let ?ctx = "[(''workflow_name'', JStr ''Demo''), (''a'', JStr ''False''),
               (''c'', JStr ''oops'')]"
  let ?s1 = "?s\<lparr>workflow_state := ?ctx\<rparr>"
  let ?e = "Exn ''NameError'' (''name '' @ [CHR 0x27] @ ''oops'' @ [CHR 0x27] @ '' is not defined'')"
  have s: "?s = ensure_step_run_id ''u1'' ?s"
    by (simp add: ensure_step_run_id_def demo_state_def)
  have mode: "\<not> is_new_conversation ?s" "start_step_id ?s = Some (step_id (hd demo_steps))"
    "\<not> str_truthy (go_to_step_id ?s)"
    by (simp_all add: demo_defs)
  have noexit: "exit_keyword_received demo_ext (input ?s) (worflow_exit_keywords ?s) = Inr False"
    by (simp add: demo_defs exit_keyword_received_def)
  have ingest: "ingest_reply demo_ext (user_interaction (hd demo_steps)) ?s = (?s1, False)"
    by (simp add: demo_defs ingest_reply_def copy_expected_keys_def Let_def)
  have rules: "orchestration_rules (user_interaction (hd demo_steps))
                 = [rule_on ''a'' ''C'', rule_on ''b'' ''B''] @ rule_on ''c'' ''C'' # []"
    by (simp add: demo_defs)
  have pre: "\<forall>p\<in>set [rule_on ''a'' ''C'', rule_on ''b'' ''B''].
               passed_over demo_ext (workflow_state ?s1) p"
    by (simp add: passed_over_def evaluates_to_def references_absent_def rule_on_def
          demo_ext_defs has_key_def)
  have r: "evaluation_raises demo_ext (workflow_state ?s1) (rule_on ''c'' ''C'') ?e"
    by (simp add: evaluation_raises_def rule_on_def demo_ext_defs has_key_def)
  from rule_evaluation_error_is_raised[OF s mode noexit ingest rules pre r]
  obtain c where "condition (rule_on ''c'' ''C'') = Some c"
    "user_input_with_step demo_ext (hd demo_steps) ?s
       = Inl (invalid_rule demo_ext (rule_on ''c'' ''C'') (eval_failed c ?e), ?s1)"
    by blast
  moreover from this have "c = ''{{ c }}''" by (simp add: rule_on_def)
  ultimately show ?thesis using r by simp
qed

text \<open>
  Claim C7 as stated fails: on that reply the wrapped handler ends with the
  \<open>ValueError\<close>, and the state it leaves is still \<open>working\<close> with an empty output.
\<close>

theorem rule_evaluation_error_counterexample:
  "snd (process_workflow_run (user_input_with_step demo_ext) ''u1'' ''u2'' 1 2 (hd demo_steps)
          (demo_state [(''a'', JStr ''False''), (''c'', JStr ''oops'')]) Map.empty)
     = Inl (Exn ''ValueError''
              (''Invalid orchestration rule data: {...}, error: ''
                 @ ''Failed to evaluate orchestration rule condition '' @ [CHR 0x27]
                 @ ''{{ c }}'' @ [CHR 0x27] @ '': name '' @ [CHR 0x27] @ ''oops'' @ [CHR 0x27]
                 @ '' is not defined''),
            (demo_state [(''a'', JStr ''False''), (''c'', JStr ''oops'')])
               \<lparr>workflow_state :=
                  [(''workflow_name'', JStr ''Demo''), (''a'', JStr ''False''),
                   (''c'', JStr ''oops'')]\<rparr>)
   \<and> task_state ((demo_state [(''a'', JStr ''False''), (''c'', JStr ''oops'')])
               \<lparr>workflow_state :=
                  [(''workflow_name'', JStr ''Demo''), (''a'', JStr ''False''),
                   (''c'', JStr ''oops'')]\<rparr>) = TaskState_working
   \<and> TaskState_working \<noteq> TaskState_failed
   \<and> wf_output ((demo_state [(''a'', JStr ''False''), (''c'', JStr ''oops'')])
               \<lparr>workflow_state :=
                  [(''workflow_name'', JStr ''Demo''), (''a'', JStr ''False''),
                   (''c'', JStr ''oops'')]\<rparr>) = JObj []"
  by (simp add: process_workflow_run_def ensure_step_run_id_def
        user_input_with_step_def exit_keyword_received_def resume_turn_def
        ingest_reply_def copy_expected_keys_def Let_def invalid_rule_def eval_failed_def
        demo_defs demo_ext_defs has_key_def TaskState_defs)

text \<open>
  Claim C8. If the handler raises \<open>e\<close> (\<open>ws'\<close> is the state as the handler left it),
  the wrapper upserts the row under the current step-run id with status failed, the second
  clock reading as \<open>completed_at\<close>, and an \<open>error_response\<close> that carries the text and
  the type of \<open>e\<close>; then it raises \<open>e\<close> itself.
\<close>

theorem journal_records_uncaught_exception:
  assumes "func step_detail (ensure_step_run_id uuid1 ws0) = Inl (e, ws')"
  shows "\<exists>db' row resp.
           process_workflow_run func uuid1 uuid2 t1 t2 step_detail ws0 db = (db', Inl (e, ws'))
           \<and> db' (current_step_run_id ws') = Some row
           \<and> row_status row = TaskState_failed
           \<and> completed_at row = Some t2
           \<and> error_response row = Some (JObj resp)
           \<and> map_of resp ''error'' = Some (JStr (exception_text e))
           \<and> map_of resp ''exception_type'' = Some (JStr (exception_type e))"
proof -
  from wrapper_reraises[where func = func, OF assms, of uuid2 t1 t2 db]
  obtain db' row where
    "process_workflow_run func uuid1 uuid2 t1 t2 step_detail ws0 db = (db', Inl (e, ws'))"
    "db' (current_step_run_id ws') = Some row" "row_status row = TaskState_failed"
    "completed_at row = Some t2"
    "error_response row
       = Some (error_data step_detail (workflow_run_id (ensure_step_run_id uuid1 ws0)) ws' e)"
    by blast
  then show ?thesis by (simp add: error_data_def)
qed

text \<open>
  A first turn at a step whose \<open>user_message\<close> is missing: rendering raises, and the row
  of the fresh step-run id \<open>u1\<close> is failed.
\<close>

theorem journal_records_uncaught_exception_witness:
  "user_input_with_step demo_ext
      ((hd demo_steps)\<lparr>user_interaction := (demo_interaction [])\<lparr>user_message := None\<rparr>\<rparr>)
      (ensure_step_run_id ''u1''
         ((demo_state [])\<lparr>is_new_conversation := True, current_step_run_id := None\<rparr>))
     = Inl (Exn ''TypeError'' ''template source is None'',
            (demo_state [])\<lparr>is_new_conversation := True, current_step_run_id := Some ''u1''\<rparr>)
   \<and> snd (process_workflow_run (user_input_with_step demo_ext) ''u1'' ''u2'' 1 2
            ((hd demo_steps)\<lparr>user_interaction := (demo_interaction [])\<lparr>user_message := None\<rparr>\<rparr>)
            ((demo_state [])\<lparr>is_new_conversation := True, current_step_run_id := None\<rparr>)
            Map.empty)
     = Inl (Exn ''TypeError'' ''template source is None'',
            (demo_state [])\<lparr>is_new_conversation := True, current_step_run_id := Some ''u1''\<rparr>)
   \<and> map_option row_status
        (fst (process_workflow_run (user_input_with_step demo_ext) ''u1'' ''u2'' 1 2
            ((hd demo_steps)\<lparr>user_interaction := (demo_interaction [])\<lparr>user_message := None\<rparr>\<rparr>)
            ((demo_state [])\<lparr>is_new_conversation := True, current_step_run_id := None\<rparr>)
            Map.empty) (Some ''u1''))
     = Some TaskState_failed"
proof -
  let ?step = "(hd demo_steps)\<lparr>user_interaction := (demo_interaction [])\<lparr>user_message := None\<rparr>\<rparr>"
  let ?s0 = "(demo_state [])\<lparr>is_new_conversation := True, current_step_run_id := None\<rparr>"
  let ?s' = "(demo_state [])\<lparr>is_new_conversation := True, current_step_run_id := Some ''u1''\<rparr>"
  let ?e = "Exn ''TypeError'' ''template source is None''"
  have h: "user_input_with_step demo_ext ?step (ensure_step_run_id ''u1'' ?s0) = Inl (?e, ?s')"
    by (simp add: user_input_with_step_def exit_keyword_received_def prompt_turn_def
          ensure_step_run_id_def demo_defs demo_ext_defs)
  from journal_records_uncaught_exception[where func = "user_input_with_step demo_ext", OF h,
      of "''u2''" 1 2 Map.empty]
  obtain db' row where
    "process_workflow_run (user_input_with_step demo_ext) ''u1'' ''u2'' 1 2 ?step ?s0 Map.empty
       = (db', Inl (?e, ?s'))"
    "db' (current_step_run_id ?s') = Some row" "row_status row = TaskState_failed"
    by blast
  then show ?thesis using h by (simp add: demo_state_def)
qed

section \<open>Properties of the SYSTEM\_ACTION handler\<close>

text \<open>Keys of a dict after an update and after a deletion.\<close>

lemma has_key_update: "has_key (AList.update k v d) k' \<longleftrightarrow> k' = k \<or> has_key d k'"
  by (simp add: has_key_def update_conv')

lemma has_key_delete: "has_key (AList.delete k d) k' \<longleftrightarrow> k' \<noteq> k \<and> has_key d k'"
  by (simp add: has_key_def delete_conv')

text \<open>
  The resolution phase: without parameters nothing happens; with parameters they are
  resolved against the scratchpad extended by \<open>token\<close> and \<open>user_id\<close>, and the state
  that goes on has both keys deleted, whether or not it had them before.
\<close>

lemma resolve_tool_params_falsy: "\<not> truthy p \<Longrightarrow> resolve_tool_params ext p s = (p, s)"
  by (simp add: resolve_tool_params_def)

lemma resolve_tool_params_truthy:
  assumes "truthy p"
  shows "resolve_tool_params ext p s =
           (resolve_jsonpath_in_params ext p
              (JObj (AList.update ''user_id'' (json_of_opt (user_id s))
                       (AList.update ''token'' (json_of_opt (token s)) (workflow_state s)))),
            s\<lparr>workflow_state :=
                 AList.delete ''user_id'' (AList.delete ''token''
                   (AList.update ''user_id'' (json_of_opt (user_id s))
                      (AList.update ''token'' (json_of_opt (token s)) (workflow_state s))))\<rparr>)"
  using assms by (simp add: resolve_tool_params_def Let_def)

lemma resolve_tool_params_keys:
  assumes "resolve_tool_params ext p s = (p', s1)" and "k = ''token'' \<or> k = ''user_id''"
  shows "has_key (workflow_state s1) k \<longleftrightarrow> \<not> truthy p \<and> has_key (workflow_state s) k"
proof (cases "truthy p")
  case True
  with assms show ?thesis
    by (auto simp: resolve_tool_params_truthy has_key_delete)
next
  case False
  with assms show ?thesis by (auto simp: resolve_tool_params_falsy)
qed

lemma resolve_tool_params_status:
  "resolve_tool_params ext p s = (p', s1) \<Longrightarrow>
     task_state s1 = task_state s \<and> wf_output s1 = wf_output s"
  by (auto simp: resolve_tool_params_def Let_def split: if_splits)

lemma resolve_tool_params_ids:
  "resolve_tool_params ext p s = (p', s1) \<Longrightarrow>
     current_step_run_id s1 = current_step_run_id s \<and> workflow_run_id s1 = workflow_run_id s"
  by (auto simp: resolve_tool_params_def Let_def split: if_splits)

text \<open>\<open>output_mapping\<close> adds exactly its own keys to the scratchpad.\<close>

lemma apply_output_mapping_keys:
  "has_key (apply_output_mapping ext out m d) k \<longleftrightarrow> has_key d k \<or> k \<in> fst ` set m"
  unfolding apply_output_mapping_def
  by (induction m arbitrary: d) (auto simp: has_key_update)

text \<open>
  The handler in two phases: once its input is parsed, it is what follows the tool call,
  run from the state that the resolution phase leaves and on the outcome of the \<open>try\<close>
  block for the resolved parameters. What follows the tool call writes the keys of
  \<open>output_mapping\<close> at most, and no phase touches the step-run id.
\<close>

lemma handler_phases:
  assumes "parse_tool_input ext (inputs (system_action_details step_detail)) = Inr p0"
  shows "system_control_with_step ext step_detail s =
           after_tool_call ext step_detail (snd (resolve_tool_params ext p0 s))
             (try_tool ext (tool_name (system_action_details step_detail))
                (error_mapping (system_action_details step_detail))
                (fst (resolve_tool_params ext p0 s)))"
  using assms
  by (cases "resolve_tool_params ext p0 s")
     (simp add: system_control_with_step_def after_tool_call_def Let_def
           split: sum.splits option.splits)

lemma after_tool_call_keys:
  assumes "\<not> has_key (workflow_state s1) k"
    and "\<forall>m. nonempty_dict (output_mapping (system_action_details step_detail)) = Some m
                \<longrightarrow> k \<notin> fst ` set m"
  shows "\<not> has_key (workflow_state (journalled_state (after_tool_call ext step_detail s1 outcome))) k"
  using assms
  by (auto simp: after_tool_call_def journalled_state_def apply_output_mapping_keys
           split: sum.splits option.splits)

lemma after_tool_call_ids:
  "current_step_run_id (journalled_state (after_tool_call ext step_detail s1 outcome))
     = current_step_run_id s1"
  by (auto simp: after_tool_call_def journalled_state_def split: sum.splits option.splits)

lemma system_control_ids:
  "current_step_run_id (journalled_state (system_control_with_step ext step_detail s))
     = current_step_run_id s"
proof (cases "parse_tool_input ext (inputs (system_action_details step_detail))")
  case (Inl e)
  then show ?thesis
    by (simp add: system_control_with_step_def journalled_state_def Let_def)
next
  case (Inr p0)
  obtain p s1 where r: "resolve_tool_params ext p0 s = (p, s1)"
    by (cases "resolve_tool_params ext p0 s")
  show ?thesis
    using handler_phases[OF Inr, of s] r resolve_tool_params_ids[OF r]
    by (simp add: after_tool_call_ids)
qed

text \<open>
  The journal after a wrapped handler that keeps the step-run id: it differs from the
  journal before in the one row of that id, whose snapshot is the scratchpad of the
  returned state, or the error snapshot of the state in which the exception was raised.
  The wrapper itself adds the entry \<open>execution_phase\<close> at most.
\<close>

lemma wrapper_journal:
  assumes ids: "current_step_run_id (journalled_state (func step_detail (ensure_step_run_id uuid1 s0)))
                  = current_step_run_id (ensure_step_run_id uuid1 s0)"
  shows "\<exists>row. fst (process_workflow_run func uuid1 uuid2 t1 t2 step_detail s0 db)
                 = db(current_step_run_id (ensure_step_run_id uuid1 s0) \<mapsto> row)
          \<and> (case func step_detail (ensure_step_run_id uuid1 s0) of
                Inl (e, ws') \<Rightarrow>
                  snd (process_workflow_run func uuid1 uuid2 t1 t2 step_detail s0 db) = Inl (e, ws')
                  \<and> row_workflow_state row
                      = error_workflow_state step_detail
                          (workflow_run_id (ensure_step_run_id uuid1 s0)) ws' e
              | Inr rs0 \<Rightarrow>
                  (\<exists>rs. snd (process_workflow_run func uuid1 uuid2 t1 t2 step_detail s0 db) = Inr rs
                     \<and> row_workflow_state row = JObj (workflow_state rs)
                     \<and> (\<forall>k. has_key (workflow_state rs) k
                            \<longrightarrow> k = ''execution_phase'' \<or> has_key (workflow_state rs0) k)))"
proof (cases "func step_detail (ensure_step_run_id uuid1 s0)")
  case (Inl a)
  obtain e ws' where a: "a = (e, ws')" by (cases a)
  with Inl ids show ?thesis
    by (auto simp: process_workflow_run_def Let_def journalled_state_def error_upsert_def
          initial_upsert_def split: option.splits)
next
  case (Inr rs0)
  with ids show ?thesis
    by (auto simp: process_workflow_run_def Let_def journalled_state_def completion_upsert_def
          completion_outcome_def initial_upsert_def has_key_update split: option.splits)
qed


text \<open>
  Claim C3, as the code has it. Let \<open>k\<close> be \<open>token\<close> or \<open>user_id\<close>, let
  \<open>output_mapping\<close>, which writes its keys into the scratchpad, not name \<open>k\<close>, and let a
  scratchpad that has \<open>k\<close> on entry meet parameters to resolve (the deletion is part of the
  resolution and does not happen without it). Then:
  \<^item> Parameters that are not empty are resolved against the scratchpad extended by
    \<open>token\<close> and \<open>user_id\<close>. The state that the resolution leaves does not have \<open>k\<close>, and
    it is from this state that the handler calls the tool and does all that follows.
  \<^item> Whether the handler returns or raises, the scratchpad of the state it leaves does
    not have \<open>k\<close>.
  \<^item> The journal wrapper changes the one row of the step run, and the scratchpad that
    this row holds after the step, as the snapshot of a returned step or inside the error
    snapshot of a raised one, does not have \<open>k\<close>: what the handler added for the resolution
    is not persisted.
\<close>

theorem token_scrubbing:
  assumes k: "k = ''token'' \<or> k = ''user_id''"
    and out: "\<forall>m. nonempty_dict (output_mapping (system_action_details step_detail)) = Some m
                \<longrightarrow> k \<notin> fst ` set m"
    and entry: "has_key (workflow_state s) k \<longrightarrow>
                  (\<exists>p. parse_tool_input ext (inputs (system_action_details step_detail)) = Inr p
                       \<and> truthy p)"
  shows "(\<forall>p0. parse_tool_input ext (inputs (system_action_details step_detail)) = Inr p0 \<longrightarrow>
            (truthy p0 \<longrightarrow>
               fst (resolve_tool_params ext p0 s)
                 = resolve_jsonpath_in_params ext p0
                     (JObj (AList.update ''user_id'' (json_of_opt (user_id s))
                              (AList.update ''token'' (json_of_opt (token s))
                                 (workflow_state s)))))
            \<and> \<not> has_key (workflow_state (snd (resolve_tool_params ext p0 s))) k
            \<and> system_control_with_step ext step_detail s =
                after_tool_call ext step_detail (snd (resolve_tool_params ext p0 s))
                  (try_tool ext (tool_name (system_action_details step_detail))
                     (error_mapping (system_action_details step_detail))
                     (fst (resolve_tool_params ext p0 s))))
    \<and> \<not> has_key (workflow_state (journalled_state (system_control_with_step ext step_detail s))) k
    \<and> (\<forall>uuid1 uuid2 t1 t2 s0 db. s = ensure_step_run_id uuid1 s0 \<longrightarrow>
          (\<exists>row.
             fst (process_workflow_run (system_control_with_step ext) uuid1 uuid2 t1 t2
                    step_detail s0 db) = db(current_step_run_id s \<mapsto> row)
             \<and> (case snd (process_workflow_run (system_control_with_step ext) uuid1 uuid2 t1 t2
                            step_detail s0 db) of
                   Inl (e, ws') \<Rightarrow>
                     row_workflow_state row
                       = error_workflow_state step_detail (workflow_run_id s) ws' e
                     \<and> \<not> has_key (workflow_state ws') k
                 | Inr rs \<Rightarrow>
                     row_workflow_state row = JObj (workflow_state rs)
                     \<and> \<not> has_key (workflow_state rs) k)))"
proof -
  let ?sa = "system_action_details step_detail"
  have phase: "\<And>p0. parse_tool_input ext (inputs ?sa) = Inr p0 \<Longrightarrow>
      \<not> has_key (workflow_state (snd (resolve_tool_params ext p0 s))) k"
  proof -
    fix p0 assume p0: "parse_tool_input ext (inputs ?sa) = Inr p0"
    obtain p s1 where r: "resolve_tool_params ext p0 s = (p, s1)"
      by (cases "resolve_tool_params ext p0 s")
    from resolve_tool_params_keys[OF r k] entry p0 r
    show "\<not> has_key (workflow_state (snd (resolve_tool_params ext p0 s))) k" by auto
  qed
  have A: "\<And>p0. parse_tool_input ext (inputs ?sa) = Inr p0 \<Longrightarrow>
            (truthy p0 \<longrightarrow>
               fst (resolve_tool_params ext p0 s)
                 = resolve_jsonpath_in_params ext p0
                     (JObj (AList.update ''user_id'' (json_of_opt (user_id s))
                              (AList.update ''token'' (json_of_opt (token s))
                                 (workflow_state s)))))
            \<and> \<not> has_key (workflow_state (snd (resolve_tool_params ext p0 s))) k
            \<and> system_control_with_step ext step_detail s =
                after_tool_call ext step_detail (snd (resolve_tool_params ext p0 s))
                  (try_tool ext (tool_name ?sa) (error_mapping ?sa)
                     (fst (resolve_tool_params ext p0 s)))"
    using phase handler_phases by (simp add: resolve_tool_params_truthy)
  have B: "\<not> has_key (workflow_state (journalled_state (system_control_with_step ext step_detail s))) k"
  proof (cases "parse_tool_input ext (inputs ?sa)")
    case (Inl e)
    with entry have "\<not> has_key (workflow_state s) k" by auto
    with Inl show ?thesis
      by (simp add: system_control_with_step_def journalled_state_def Let_def)
  next
    case (Inr p0)
    show ?thesis
      using handler_phases[OF Inr, of s] after_tool_call_keys[OF phase[OF Inr] out]
      by simp
  qed
  have C: "\<And>uuid1 uuid2 t1 t2 s0 db. s = ensure_step_run_id uuid1 s0 \<Longrightarrow>
          (\<exists>row.
             fst (process_workflow_run (system_control_with_step ext) uuid1 uuid2 t1 t2
                    step_detail s0 db) = db(current_step_run_id s \<mapsto> row)
             \<and> (case snd (process_workflow_run (system_control_with_step ext) uuid1 uuid2 t1 t2
                            step_detail s0 db) of
                   Inl (e, ws') \<Rightarrow>
                     row_workflow_state row
                       = error_workflow_state step_detail (workflow_run_id s) ws' e
                     \<and> \<not> has_key (workflow_state ws') k
                 | Inr rs \<Rightarrow>
                     row_workflow_state row = JObj (workflow_state rs)
                     \<and> \<not> has_key (workflow_state rs) k))"
  proof -
    fix uuid1 uuid2 t1 t2 s0 db
    assume s: "s = ensure_step_run_id uuid1 s0"
    have ids: "current_step_run_id (journalled_state
                 (system_control_with_step ext step_detail (ensure_step_run_id uuid1 s0)))
               = current_step_run_id (ensure_step_run_id uuid1 s0)"
      by (rule system_control_ids)
    from wrapper_journal[where func = "system_control_with_step ext", OF ids, of uuid2 t1 t2 db]
    obtain row where row:
      "fst (process_workflow_run (system_control_with_step ext) uuid1 uuid2 t1 t2 step_detail s0 db)
         = db(current_step_run_id s \<mapsto> row)"
      "case system_control_with_step ext step_detail s of
         Inl (e, ws') \<Rightarrow>
           snd (process_workflow_run (system_control_with_step ext) uuid1 uuid2 t1 t2
                  step_detail s0 db) = Inl (e, ws')
           \<and> row_workflow_state row = error_workflow_state step_detail (workflow_run_id s) ws' e
       | Inr rs0 \<Rightarrow>
           (\<exists>rs. snd (process_workflow_run (system_control_with_step ext) uuid1 uuid2 t1 t2
                        step_detail s0 db) = Inr rs
              \<and> row_workflow_state row = JObj (workflow_state rs)
              \<and> (\<forall>k. has_key (workflow_state rs) k
                     \<longrightarrow> k = ''execution_phase'' \<or> has_key (workflow_state rs0) k))"
      unfolding s by blast
    have kp: "k \<noteq> ''execution_phase''" using k by auto
    show "\<exists>row.
             fst (process_workflow_run (system_control_with_step ext) uuid1 uuid2 t1 t2
                    step_detail s0 db) = db(current_step_run_id s \<mapsto> row)
             \<and> (case snd (process_workflow_run (system_control_with_step ext) uuid1 uuid2 t1 t2
                            step_detail s0 db) of
                   Inl (e, ws') \<Rightarrow>
                     row_workflow_state row
                       = error_workflow_state step_detail (workflow_run_id s) ws' e
                     \<and> \<not> has_key (workflow_state ws') k
                 | Inr rs \<Rightarrow>
                     row_workflow_state row = JObj (workflow_state rs)
                     \<and> \<not> has_key (workflow_state rs) k)"
    proof (cases "system_control_with_step ext step_detail s")
      case (Inl a)
      obtain e ws' where a: "a = (e, ws')" by (cases a)
      from B Inl a have "\<not> has_key (workflow_state ws') k" by (simp add: journalled_state_def)
      with row Inl a show ?thesis by (intro exI[of _ row]) simp
    next
      case (Inr rs0)
      from B Inr have nk: "\<not> has_key (workflow_state rs0) k" by (simp add: journalled_state_def)
      from row(2) Inr obtain rs where rs:
        "snd (process_workflow_run (system_control_with_step ext) uuid1 uuid2 t1 t2
                step_detail s0 db) = Inr rs"
        "row_workflow_state row = JObj (workflow_state rs)"
        "\<forall>k. has_key (workflow_state rs) k
              \<longrightarrow> k = ''execution_phase'' \<or> has_key (workflow_state rs0) k"
        by auto
      from rs(3) nk kp have "\<not> has_key (workflow_state rs) k" by blast
      with row(1) rs(1,2) show ?thesis by (intro exI[of _ row]) simp
    qed
  qed
  from A B C show ?thesis by blast
qed

lemmas demo_tool_defs = demo_ext_def demo_loads_def

text \<open>
  Step \<open>B\<close> of the example has parameters; a stale \<open>token\<close> entry of the scratchpad is
  gone after the step.
\<close>

theorem token_scrubbing_witness:
  "system_control_with_step demo_ext (demo_steps ! 1)
      ((demo_state [])\<lparr>workflow_state :=
          [(''workflow_name'', JStr ''Demo''), (''token'', JStr ''stale'')]\<rparr>)
     = Inr ((demo_state [])\<lparr>workflow_state := [(''workflow_name'', JStr ''Demo'')],
                             task_state := TaskState_completed\<rparr>)
   \<and> has_key (workflow_state ((demo_state [])\<lparr>workflow_state :=
          [(''workflow_name'', JStr ''Demo''), (''token'', JStr ''stale'')]\<rparr>)) ''token''
   \<and> \<not> has_key (workflow_state ((demo_state [])
          \<lparr>workflow_state := [(''workflow_name'', JStr ''Demo'')],
           task_state := TaskState_completed\<rparr>)) ''token''"
proof -
  let ?s = "(demo_state [])\<lparr>workflow_state :=
          [(''workflow_name'', JStr ''Demo''), (''token'', JStr ''stale'')]\<rparr>"
  let ?s' = "(demo_state [])\<lparr>workflow_state := [(''workflow_name'', JStr ''Demo'')],
                             task_state := TaskState_completed\<rparr>"
  have ret: "system_control_with_step demo_ext (demo_steps ! 1) ?s = Inr ?s'"
    by (simp add: system_control_with_step_def parse_tool_input_def resolve_tool_params_def
          try_tool_def Let_def demo_defs demo_tool_defs)
  have k: "''token'' = ''token'' \<or> ''token'' = ''user_id''" by simp
  have out: "\<forall>m. nonempty_dict (output_mapping (system_action_details (demo_steps ! 1))) = Some m
                \<longrightarrow> ''token'' \<notin> fst ` set m"
    by (simp add: demo_defs)
  have entry: "has_key (workflow_state ?s) ''token'' \<longrightarrow>
                  (\<exists>p. parse_tool_input demo_ext (inputs (system_action_details (demo_steps ! 1)))
                          = Inr p \<and> truthy p)"
    by (simp add: demo_defs parse_tool_input_def)
  have "has_key (workflow_state ?s) ''token''" by (simp add: has_key_def)
  moreover from token_scrubbing[OF k out entry]
  have "\<not> has_key (workflow_state
           (journalled_state (system_control_with_step demo_ext (demo_steps ! 1) ?s))) ''token''"
    by blast
  ultimately show ?thesis using ret by (simp add: journalled_state_def)
qed


text \<open>
  Claim C3 as stated fails: an \<open>output_mapping\<close> that stores the tool's reply under
  \<open>user_id\<close> leaves that key in the scratchpad when the step returns.
\<close>

theorem token_scrubbing_counterexample:
  "system_control_with_step demo_ext
      ((demo_steps ! 1)\<lparr>system_action_details :=
          demo_action\<lparr>output_mapping := JObj [(''user_id'', JStr ''$'')]\<rparr>\<rparr>)
      (demo_state [])
     = Inr ((demo_state [])\<lparr>workflow_state :=
                [(''workflow_name'', JStr ''Demo''), (''user_id'', JInt 42)],
              task_state := TaskState_completed\<rparr>)
   \<and> has_key [(''workflow_name'', JStr ''Demo''), (''user_id'', JInt 42)] ''user_id''"
  by (simp add: system_control_with_step_def parse_tool_input_def resolve_tool_params_def
        try_tool_def apply_output_mapping_def escape_extracted_def Let_def has_key_def
        demo_defs demo_tool_defs)

text \<open>
  Claim C6. The 45 seconds themselves are not modelled: \<open>ToolTimeout\<close> says that the
  \<open>asyncio.timeout(45)\<close> block ended with \<open>TimeoutError\<close>. Then the handler returns the
  state it had when it called the tool (\<open>s1\<close>, after parameter resolution) with
  \<open>task_state\<close> failed and the timeout summary that names the tool. None of the three
  mappings is applied: the result is the same whatever \<open>error_mapping\<close>,
  \<open>success_mapping\<close> and \<open>output_mapping\<close> the step has.
\<close>

theorem tool_timeout_fails_step:
  assumes parse: "parse_tool_input ext (inputs (system_action_details step_detail)) = Inr p0"
    and res: "resolve_tool_params ext p0 s = (p, s1)"
    and timeout: "call_tool ext (tool_name (system_action_details step_detail)) p = ToolTimeout"
  shows "system_control_with_step ext step_detail s =
           Inr (s1\<lparr>task_state := TaskState_failed,
                   wf_output := JObj [(''summary'',
                     JStr (''Tool execution timeout: ''
                             @ fmt_opt (tool_name (system_action_details step_detail))))]\<rparr>)
    \<and> (\<forall>em sm om.
          system_control_with_step ext
            (step_detail\<lparr>system_action_details :=
               (system_action_details step_detail)
                 \<lparr>error_mapping := em, success_mapping := sm, output_mapping := om\<rparr>\<rparr>) s
          = system_control_with_step ext step_detail s)"
  using assms by (simp add: system_control_with_step_def try_tool_def Let_def)

text \<open>Step \<open>B\<close> of the example with a tool server that does not answer in time.\<close>

theorem tool_timeout_fails_step_witness:
  "call_tool (demo_ext\<lparr>call_tool := \<lambda>name params. ToolTimeout\<rparr>) (Some ''lookup'')
      (JObj [(''q'', JStr ''plain'')]) = ToolTimeout
   \<and> system_control_with_step (demo_ext\<lparr>call_tool := \<lambda>name params. ToolTimeout\<rparr>)
        (demo_steps ! 1) (demo_state [])
      = Inr ((demo_state [])\<lparr>task_state := TaskState_failed,
               wf_output := JObj [(''summary'', JStr ''Tool execution timeout: lookup'')]\<rparr>)"
proof -
  let ?ext = "demo_ext\<lparr>call_tool := \<lambda>name params. ToolTimeout\<rparr>"
  have parse: "parse_tool_input ?ext (inputs (system_action_details (demo_steps ! 1)))
                 = Inr (JObj [(''q'', JStr ''plain'')])"
    by (simp add: parse_tool_input_def demo_defs)
  have res: "resolve_tool_params ?ext (JObj [(''q'', JStr ''plain'')]) (demo_state [])
               = (JObj [(''q'', JStr ''plain'')], demo_state [])"
    by (simp add: resolve_tool_params_def Let_def demo_defs demo_tool_defs)
  have timeout: "call_tool ?ext (tool_name (system_action_details (demo_steps ! 1)))
                   (JObj [(''q'', JStr ''plain'')]) = ToolTimeout"
    by simp
  from tool_timeout_fails_step[OF parse res timeout] timeout show ?thesis
    by (simp add: demo_defs)
qed

text \<open>
  Claim C9. When the \<open>try\<close> block ends without an exception (the tool replied, the reply
  decoded, and \<open>error_mapping\<close> found no error) and \<open>success_mapping\<close> is a dict that is
  not empty, the handler raises \<open>AttributeError\<close> for the attribute \<open>inputs\<close> that
  \<open>WorkflowState\<close> does not declare. The state is the one after parameter resolution:
  \<open>task_state\<close> is not completed but as on entry, and \<open>output_mapping\<close> has not been
  applied, its content makes no difference.
\<close>

theorem success_mapping_raises_attribute_error:
  assumes parse: "parse_tool_input ext (inputs (system_action_details step_detail)) = Inr p0"
    and res: "resolve_tool_params ext p0 s = (p, s1)"
    and tool: "try_tool ext (tool_name (system_action_details step_detail))
                 (error_mapping (system_action_details step_detail)) p = Inr tool_output"
    and sm: "success_mapping (system_action_details step_detail) = JObj kvs" "kvs \<noteq> []"
  shows "system_control_with_step ext step_detail s =
           Inl (Exn ''AttributeError'' (no_attribute ''WorkflowState'' ''inputs''), s1)
    \<and> task_state s1 = task_state s
    \<and> (\<forall>om. system_control_with_step ext
            (step_detail\<lparr>system_action_details :=
               (system_action_details step_detail)\<lparr>output_mapping := om\<rparr>\<rparr>) s
          = system_control_with_step ext step_detail s)"
  using assms resolve_tool_params_status[OF res]
  by (simp add: system_control_with_step_def Let_def)

text \<open>Step \<open>B\<close> of the example with a \<open>success_mapping\<close> of one entry.\<close>

theorem success_mapping_raises_attribute_error_witness:
  "try_tool demo_ext (Some ''lookup'') (JObj []) (JObj [(''q'', JStr ''plain'')]) = Inr (JInt 42)
   \<and> system_control_with_step demo_ext
        ((demo_steps ! 1)\<lparr>system_action_details :=
            demo_action\<lparr>success_mapping := JObj [(''answer'', JStr ''$'')],
                         output_mapping := JObj [(''answer'', JStr ''$'')]\<rparr>\<rparr>)
        (demo_state [])
      = Inl (Exn ''AttributeError'' (no_attribute ''WorkflowState'' ''inputs''), demo_state [])"
proof -
  let ?step = "(demo_steps ! 1)\<lparr>system_action_details :=
            demo_action\<lparr>success_mapping := JObj [(''answer'', JStr ''$'')],
                         output_mapping := JObj [(''answer'', JStr ''$'')]\<rparr>\<rparr>"
  have parse: "parse_tool_input demo_ext (inputs (system_action_details ?step))
                 = Inr (JObj [(''q'', JStr ''plain'')])"
    by (simp add: parse_tool_input_def demo_defs)
  have res: "resolve_tool_params demo_ext (JObj [(''q'', JStr ''plain'')]) (demo_state [])
               = (JObj [(''q'', JStr ''plain'')], demo_state [])"
    by (simp add: resolve_tool_params_def Let_def demo_defs demo_tool_defs)
  have t: "try_tool demo_ext (Some ''lookup'') (JObj []) (JObj [(''q'', JStr ''plain'')])
             = Inr (JInt 42)"
    by (simp add: try_tool_def demo_tool_defs)
  have tool: "try_tool demo_ext (tool_name (system_action_details ?step))
                 (error_mapping (system_action_details ?step)) (JObj [(''q'', JStr ''plain'')])
                = Inr (JInt 42)"
    using t by (simp add: demo_defs)
  have sm: "success_mapping (system_action_details ?step) = JObj [(''answer'', JStr ''$'')]"
    "[(''answer'', JStr ''$'')] \<noteq> []"
    by (simp_all add: demo_defs)
  from success_mapping_raises_attribute_error[OF parse res tool sm] t show ?thesis by simp
qed

section \<open>Properties of the workflow manager\<close>

text \<open>An exception of the graph run is the result of \<open>process_workflow\<close>.\<close>

lemma process_workflow_reraises:
  assumes "get_user_info env (msg_token agent_input) = Inr (uid, roles)"
    and "get_input_required_step env (msg_task_id agent_input) = Inr probe"
    and "wf_id = (case probe of None \<Rightarrow> msg_workflow_id agent_input | Some r \<Rightarrow> ir_workflow_id r)"
    and "get_steps_by_workflow_id env wf_id roles = Some workflow"
    and "wf_steps workflow \<noteq> []"
    and "ainvoke env (seed_state agent_input uid roles probe wf_id workflow) = Inl e"
  shows "process_workflow env agent_input = Inl e"
  using assms by (simp add: process_workflow_def Let_def seed_state_def)

text \<open>
  Claim C10. When the identity lookup, the resume probe and the catalogue succeed, the
  state that \<open>process_workflow\<close> hands to the graph run is the state assembled from the
  probe's answer, and its flag \<open>is_new_conversation\<close> is true exactly when the probe for the
  message's task id found no pending row. The \<open>is-new-conversation\<close> field of the inbound
  message is not read: changing it changes neither the assembled state nor, in any case,
  the result of \<open>process_workflow\<close>, for any behaviour of the identity lookup, the journal,
  the catalogue and the graph run.
\<close>

theorem is_new_conversation_from_probe_only:
  "(\<forall>uid roles probe workflow.
      get_user_info env (msg_token agent_input) = Inr (uid, roles)
      \<and> get_input_required_step env (msg_task_id agent_input) = Inr probe
      \<and> get_steps_by_workflow_id env
           (case probe of None \<Rightarrow> msg_workflow_id agent_input | Some r \<Rightarrow> ir_workflow_id r)
           roles = Some workflow
      \<and> wf_steps workflow \<noteq> []
      \<longrightarrow> is_new_conversation
            (seed_state agent_input uid roles probe
               (case probe of None \<Rightarrow> msg_workflow_id agent_input | Some r \<Rightarrow> ir_workflow_id r)
               workflow) = (probe = None)
          \<and> process_workflow env agent_input =
              (case ainvoke env
                      (seed_state agent_input uid roles probe
                         (case probe of None \<Rightarrow> msg_workflow_id agent_input
                          | Some r \<Rightarrow> ir_workflow_id r)
                         workflow) of
                 Inl e \<Rightarrow> Inl e
               | Inr final \<Rightarrow>
                   Inr \<lparr>out_output = wf_output final, out_task_state = task_state final,
                        out_status = status final, out_event_log = event_log final,
                        out_workflow_id = workflow_id final,
                        out_workflow_name = workflow_name final\<rparr>)
          \<and> (\<forall>b. seed_state (agent_input\<lparr>msg_is_new_conversation := b\<rparr>) uid roles probe
                    (case probe of None \<Rightarrow> msg_workflow_id agent_input
                     | Some r \<Rightarrow> ir_workflow_id r)
                    workflow
                 = seed_state agent_input uid roles probe
                     (case probe of None \<Rightarrow> msg_workflow_id agent_input
                      | Some r \<Rightarrow> ir_workflow_id r)
                     workflow))
   \<and> (\<forall>b. process_workflow env (agent_input\<lparr>msg_is_new_conversation := b\<rparr>)
           = process_workflow env agent_input)"
proof -
  have seed: "\<And>b u r pr w wf. seed_state (agent_input\<lparr>msg_is_new_conversation := b\<rparr>) u r pr w wf
       = seed_state agent_input u r pr w wf"
    by (simp add: seed_state_def)
  have flag: "\<And>u r pr w wf. is_new_conversation (seed_state agent_input u r pr w wf) = (pr = None)"
  proof -
    fix u r pr w wf
    show "is_new_conversation (seed_state agent_input u r pr w wf) = (pr = None)"
      by (cases pr) (simp_all add: seed_state_def Let_def)
  qed
  have run: "\<And>uid roles probe workflow.
      get_user_info env (msg_token agent_input) = Inr (uid, roles) \<Longrightarrow>
      get_input_required_step env (msg_task_id agent_input) = Inr probe \<Longrightarrow>
      get_steps_by_workflow_id env
           (case probe of None \<Rightarrow> msg_workflow_id agent_input | Some r \<Rightarrow> ir_workflow_id r)
           roles = Some workflow \<Longrightarrow>
      wf_steps workflow \<noteq> [] \<Longrightarrow>
      process_workflow env agent_input =
              (case ainvoke env
                      (seed_state agent_input uid roles probe
                         (case probe of None \<Rightarrow> msg_workflow_id agent_input
                          | Some r \<Rightarrow> ir_workflow_id r)
                         workflow) of
                 Inl e \<Rightarrow> Inl e
               | Inr final \<Rightarrow>
                   Inr \<lparr>out_output = wf_output final, out_task_state = task_state final,
                        out_status = status final, out_event_log = event_log final,
                        out_workflow_id = workflow_id final,
                        out_workflow_name = workflow_name final\<rparr>)"
    by (simp add: process_workflow_def Let_def seed_state_def)
  have same: "\<And>b. process_workflow env (agent_input\<lparr>msg_is_new_conversation := b\<rparr>)
       = process_workflow env agent_input"
    by (simp add: process_workflow_def seed Let_def
          cong: sum.case_cong option.case_cong prod.case_cong)
  from seed flag run same show ?thesis by simp
qed

lemmas demo_env_defs = demo_env_def demo_message_def

text \<open>
  The run \<open>run1\<close> has a pending row, and the message claims a new conversation: the graph
  run is given a resumed state, and the message that claims the opposite gets the same
  result.
\<close>

theorem is_new_conversation_from_probe_only_witness:
  "get_input_required_step demo_env (msg_task_id (demo_message ''run1'' True))
     = Inr (Some \<lparr>ir_step_id = Some ''A'', ir_workflow_id = Some ''wf1'',
                  ir_step_run_id = Some ''sr1'',
                  ir_workflow_state = [(''workflow_name'', JStr ''Demo'')]\<rparr>)
   \<and> out_event_log (projr (process_workflow demo_env (demo_message ''run1'' True)))
       = [''resumed'']
   \<and> process_workflow demo_env (demo_message ''run1'' False)
       = process_workflow demo_env (demo_message ''run1'' True)"
proof -
  let ?a = "demo_message ''run1'' True"
  let ?probe = "Some \<lparr>ir_step_id = Some ''A'', ir_workflow_id = Some ''wf1'',
                  ir_step_run_id = Some ''sr1'',
                  ir_workflow_state = [(''workflow_name'', JStr ''Demo'')]\<rparr>"
  let ?wf = "\<lparr>wf_name = Some ''Demo'', workflow_exit_keywords = Some [''quit''],
              wf_steps = demo_steps\<rparr>"
  have h: "get_user_info demo_env (msg_token ?a) = Inr (Some ''u1'', [''admin''])
      \<and> get_input_required_step demo_env (msg_task_id ?a) = Inr ?probe
      \<and> get_steps_by_workflow_id demo_env
           (case ?probe of None \<Rightarrow> msg_workflow_id ?a | Some r \<Rightarrow> ir_workflow_id r)
           [''admin''] = Some ?wf
      \<and> wf_steps ?wf \<noteq> []"
    by (simp add: demo_env_defs demo_steps_def)
  note t = is_new_conversation_from_probe_only[of demo_env ?a]
  from t h have flag: "is_new_conversation
       (seed_state ?a (Some ''u1'') [''admin''] ?probe
          (case ?probe of None \<Rightarrow> msg_workflow_id ?a | Some r \<Rightarrow> ir_workflow_id r) ?wf)
       = (?probe = None)"
    by blast
  from t h have run: "process_workflow demo_env ?a =
       (case ainvoke demo_env
               (seed_state ?a (Some ''u1'') [''admin''] ?probe
                  (case ?probe of None \<Rightarrow> msg_workflow_id ?a | Some r \<Rightarrow> ir_workflow_id r) ?wf) of
          Inl e \<Rightarrow> Inl e
        | Inr final \<Rightarrow>
            Inr \<lparr>out_output = wf_output final, out_task_state = task_state final,
                 out_status = status final, out_event_log = event_log final,
                 out_workflow_id = workflow_id final,
                 out_workflow_name = workflow_name final\<rparr>)"
    by blast
  have inv: "\<And>ws. ainvoke demo_env ws
      = Inr (ws\<lparr>event_log := [if is_new_conversation ws then ''new'' else ''resumed'']\<rparr>)"
    by (simp add: demo_env_def)
  have log: "out_event_log (projr (process_workflow demo_env ?a)) = [''resumed'']"
    unfolding run inv using flag by simp
  from t have "process_workflow demo_env (?a\<lparr>msg_is_new_conversation := False\<rparr>)
                 = process_workflow demo_env ?a"
    by blast
  then have "process_workflow demo_env (demo_message ''run1'' False)
                 = process_workflow demo_env ?a"
    by (simp add: demo_message_def)
  with h log show ?thesis by simp
qed

end
